theory Spec2Isabelle
  imports Complex_Main "HOL-Library.AList" "HOL-Library.Product_Lexorder" "HOL-Library.Sublist"
begin

section \<open>Values and corrections\<close>

text \<open>
  Field values of an invoice and the values a memory proposes are JavaScript values of
  type \<open>any\<close>.  An invoice arrives as JSON and a memory's values are read back from
  the store with \<open>JSON.parse\<close>, so they are what \<open>JSON.parse\<close> returns:
  null, booleans, numbers, strings, arrays and objects.  A number is finite, or an
  infinity with its sign (\<open>JSON.parse\<close> returns one for a literal such as
  \<open>1e999\<close>, and a division by zero in \<open>performComputation\<close> yields one);
  \<open>NaN\<close> appears only as the result of a computation.  Finite numbers are
  idealised as reals; \<open>undefined\<close> is the \<open>None\<close> of an option.
\<close>

datatype jsval =
    JNull
  | JBool bool
  | JNum real
  | JInf bool
  | JNaN
  | JStr string
  | JArr "jsval list"
  | JObj "(string \<times> jsval) list"

text \<open>
  \<open>JSON.parse(JSON.stringify(v))\<close>: JSON has no infinite numbers and no
  \<open>NaN\<close>, and \<open>JSON.stringify\<close> writes \<open>null\<close> for them, also
  inside arrays and objects; every other value comes back as it was.  The serialisation
  is one-to-one on the values that come back, so two values have the same serialisation
  exactly when their round trips are equal.
\<close>

primrec json_roundtrip :: "jsval \<Rightarrow> jsval" where
  "json_roundtrip JNull = JNull"
| "json_roundtrip (JBool b) = JBool b"
| "json_roundtrip (JNum x) = JNum x"
| "json_roundtrip (JInf pos) = JNull"
| "json_roundtrip JNaN = JNull"
| "json_roundtrip (JStr s) = JStr s"
| "json_roundtrip (JArr xs) = JArr (map json_roundtrip xs)"
| "json_roundtrip (JObj kvs) = JObj (map (map_prod id json_roundtrip) kvs)"

text \<open>
  The reasoning string of a correction is one of two templates: for a vendor memory it is
  built from the trigger signal, the target field and the action type, for a correction
  memory from the correction reason and the approval count.  The model keeps the
  template's name and arguments.
\<close>

datatype action_type = field_mapping | computation | inference

datatype correction_reasoning =
    VendorMemoryReasoning string string action_type
  | CorrectionMemoryReasoning string nat

record Correction =
  field :: string
  originalValue :: "jsval option"
  proposedValue :: jsval
  corr_confidence :: real
  memorySource :: string
  corr_reasoning :: correction_reasoning

record DecisionThresholds =
  autoAccept :: real
  autoCorrect :: real
  escalate :: real
  memoryApplication :: real

definition thresholds :: DecisionThresholds where
  "thresholds = \<lparr> autoAccept = 0.85, autoCorrect = 0.65, escalate = 0.4,
                   memoryApplication = 0.5 \<rparr>"

section \<open>The decision stage\<close>

text \<open>
  The reasoning string of a decision is a fixed template around the confidence (printed
  with three decimals) or around the list of risk factors; the model keeps the template's
  name and its argument instead of the rendered text.
\<close>

datatype decision_reason =
    HighConfidence_AutoAccept real
  | GoodConfidence_AutoCorrect real
  | LowConfidence_Escalate real
  | RiskFactors_Escalate "string list"
  | MediumConfidence_Escalate real

definition assessRiskFactors :: "Correction list \<Rightarrow> string list" where
  "assessRiskFactors corrections =
     (let amountCorrections =
            filter (\<lambda>c. field c \<in> set [''amount'', ''vatAmount'', ''totalPrice'']) corrections;
          risks1 = (if length amountCorrections > 0 then [''financial_impact''] else []);
          lowConfidenceCorrections = filter (\<lambda>c. corr_confidence c < 0.6) corrections;
          risks2 = (if length lowConfidenceCorrections > 0
                    then risks1 @ [''low_confidence_corrections''] else risks1);
          risks3 = (if length corrections > 3
                    then risks2 @ [''multiple_corrections''] else risks2)
      in risks3)"

definition makeDecision :: "real \<Rightarrow> Correction list \<Rightarrow> bool \<times> decision_reason" where
  "makeDecision confidence corrections =
     (if confidence \<ge> autoAccept thresholds \<and> length corrections = 0
      then (False, HighConfidence_AutoAccept confidence)
      else if confidence \<ge> autoCorrect thresholds
              \<and> list_all (\<lambda>c. corr_confidence c \<ge> 0.7) corrections
      then (False, GoodConfidence_AutoCorrect confidence)
      else if confidence < escalate thresholds
      then (True, LowConfidence_Escalate confidence)
      else (let riskFactors = assessRiskFactors corrections
            in if length riskFactors > 0
               then (True, RiskFactors_Escalate riskFactors)
               else (True, MediumConfidence_Escalate confidence)))"

section \<open>Memories and the memory store\<close>

text \<open>
  A memory is a tagged variant over a common base.  Timestamps are ISO strings in the
  code, produced by \<open>new Date().toISOString()\<close> and parsed back with
  \<open>new Date(...)\<close>; the model keeps the milliseconds since the epoch.  A
  \<open>lastUsedAt\<close> that is still the empty string is \<open>None\<close>.
\<close>

record vendor_action =
  act_type :: action_type
  sourceField :: "string option"
  targetField :: string
  act_value :: "jsval option"
  strategy :: "string option"

datatype outcome = approved | rejected | escalated

datatype memory_variant =
    VendorMemory (triggerSignal: string) (action: vendor_action) (pattern: string)
  | CorrectionMemory (fieldName: string) (originalPattern: string) (correctedValue: jsval)
      (correctionReason: string) (approvalCount: nat) (rejectionCount: nat)
  | ResolutionMemory (scenario: string) (res_outcome: outcome)
      (humanFeedback: "string option") (systemAction: string)

datatype mem_type = vendor | correction | resolution

record Memory =
  mem_id :: string
  mem_vendor :: string
  confidence :: real
  usageCount :: nat
  createdAt :: int
  lastUsedAt :: "int option"
  lastUpdatedAt :: int
  isActive :: bool
  variant :: memory_variant

fun type_of_variant :: "memory_variant \<Rightarrow> mem_type" where
  "type_of_variant (VendorMemory _ _ _) = vendor"
| "type_of_variant (CorrectionMemory _ _ _ _ _ _) = correction"
| "type_of_variant (ResolutionMemory _ _ _ _) = resolution"

definition memory_type :: "Memory \<Rightarrow> mem_type" where
  "memory_type m = type_of_variant (variant m)"

record MemoryQuery =
  q_vendor :: "string option"
  q_fieldName :: "string option"
  q_pattern :: "string option"
  q_type :: "mem_type option"
  minConfidence :: "real option"
  limit :: "nat option"

definition empty_query :: MemoryQuery where
  "empty_query = \<lparr> q_vendor = None, q_fieldName = None, q_pattern = None, q_type = None,
                    minConfidence = None, limit = None \<rparr>"

text \<open>
  The store is the SQLite table \<open>memories\<close> joined with its three detail tables on the
  primary key: a list of rows in insertion order.  \<open>INSERT OR REPLACE\<close> deletes the
  row with the same primary key and inserts the new row; \<open>UPDATE\<close> changes rows in
  place.  A memory never changes its type, so a row carries exactly its own details.
\<close>

type_synonym store = "Memory list"

text \<open>
  \<open>saveMemory\<close> writes \<open>action.value\<close> and \<open>correctedValue\<close> as JSON text
  and \<open>rowToMemory\<close> parses the text, so a row holds their round trips; an
  \<open>action.value\<close> that is undefined is stored as NULL and read back as undefined.
\<close>

definition stored_variant :: "memory_variant \<Rightarrow> memory_variant" where
  "stored_variant v =
     (case v of
        VendorMemory t a p \<Rightarrow>
          VendorMemory t (a\<lparr> act_value := map_option json_roundtrip (act_value a) \<rparr>) p
      | CorrectionMemory f op cv cr ac rc \<Rightarrow>
          CorrectionMemory f op (json_roundtrip cv) cr ac rc
      | ResolutionMemory sc oc hf sa \<Rightarrow> ResolutionMemory sc oc hf sa)"

definition stored_row :: "Memory \<Rightarrow> Memory" where
  "stored_row memory = memory\<lparr> variant := stored_variant (variant memory) \<rparr>"

definition saveMemory :: "Memory \<Rightarrow> store \<Rightarrow> store" where
  "saveMemory memory db = filter (\<lambda>r. mem_id r \<noteq> mem_id memory) db @ [stored_row memory]"

definition updateMemoryUsage :: "string \<Rightarrow> int \<Rightarrow> store \<Rightarrow> store" where
  "updateMemoryUsage memoryId now db =
     map (\<lambda>r. if mem_id r = memoryId
              then r\<lparr> usageCount := usageCount r + 1, lastUsedAt := Some now,
                      lastUpdatedAt := now \<rparr>
              else r) db"

definition updateMemoryConfidence :: "string \<Rightarrow> real \<Rightarrow> int \<Rightarrow> store \<Rightarrow> store" where
  "updateMemoryConfidence memoryId newConfidence now db =
     map (\<lambda>r. if mem_id r = memoryId
              then r\<lparr> confidence := newConfidence, lastUpdatedAt := now \<rparr>
              else r) db"

text \<open>
  JavaScript truthiness of the optional query fields: a missing field, an empty string
  and the number zero are falsy.
\<close>

definition truthy_string :: "string option \<Rightarrow> bool" where
  "truthy_string s = (case s of None \<Rightarrow> False | Some t \<Rightarrow> t \<noteq> [])"

definition truthy_real :: "real option \<Rightarrow> bool" where
  "truthy_real r = (case r of None \<Rightarrow> False | Some x \<Rightarrow> x \<noteq> 0)"

definition truthy_nat :: "nat option \<Rightarrow> bool" where
  "truthy_nat n = (case n of None \<Rightarrow> False | Some k \<Rightarrow> k \<noteq> 0)"

text \<open>
  Characters are the 8-bit \<open>char\<close>, read as the code units U+0000 to U+00FF of a
  JavaScript string; text with other code units is outside the model.  Case-insensitive
  matching against the ASCII patterns of the code then folds exactly the ASCII letters.
\<close>

definition ascii_upper :: "char \<Rightarrow> char" where
  "ascii_upper c =
     (case map_of (zip ''abcdefghijklmnopqrstuvwxyz'' ''ABCDEFGHIJKLMNOPQRSTUVWXYZ'') c of
        Some u \<Rightarrow> u | None \<Rightarrow> c)"

text \<open>SQLite's \<open>LIKE\<close>: \<open>%\<close> is any sequence, \<open>_\<close> any one character, ASCII letters fold.\<close>

fun like_match :: "string \<Rightarrow> string \<Rightarrow> bool" where
  "like_match [] s = (s = [])"
| "like_match (p # ps) s =
     (if p = CHR ''%''
      then like_match ps s \<or> (case s of [] \<Rightarrow> False | _ # s' \<Rightarrow> like_match (p # ps) s')
      else (case s of [] \<Rightarrow> False
            | c # s' \<Rightarrow> (p = CHR ''_'' \<or> ascii_upper p = ascii_upper c) \<and> like_match ps s'))"

definition row_matches :: "MemoryQuery \<Rightarrow> Memory \<Rightarrow> bool" where
  "row_matches query r =
     (isActive r
      \<and> (truthy_string (q_vendor query) \<longrightarrow> Some (mem_vendor r) = q_vendor query)
      \<and> (case q_type query of None \<Rightarrow> True | Some t \<Rightarrow> memory_type r = t)
      \<and> (truthy_string (q_fieldName query) \<longrightarrow>
           (case variant r of
              CorrectionMemory f _ _ _ _ _ \<Rightarrow> Some f = q_fieldName query
            | _ \<Rightarrow> False))
      \<and> (truthy_string (q_pattern query) \<longrightarrow>
           (let p = ''%'' @ the (q_pattern query) @ ''%''
            in case variant r of
                 VendorMemory _ _ pat \<Rightarrow> like_match p pat
               | CorrectionMemory _ op _ _ _ _ \<Rightarrow> like_match p op
               | _ \<Rightarrow> False))
      \<and> (truthy_real (minConfidence query) \<longrightarrow> confidence r \<ge> the (minConfidence query)))"

text \<open>
  \<open>ORDER BY confidence DESC, usage_count DESC\<close> leaves the order of ties to the
  engine; the model sorts stably, so ties keep the insertion order.
\<close>

definition queryMemories :: "MemoryQuery \<Rightarrow> store \<Rightarrow> Memory list" where
  "queryMemories query db =
     (let rows = sort_key (\<lambda>r. (- confidence r, - int (usageCount r)))
                   (filter (row_matches query) db)
      in if truthy_nat (limit query) then take (the (limit query)) rows else rows)"

section \<open>The memory manager\<close>

definition CONFIDENCE_DECAY_RATE :: real where "CONFIDENCE_DECAY_RATE = 0.95"
definition MAX_CONFIDENCE_INCREASE :: real where "MAX_CONFIDENCE_INCREASE = 0.1"
definition MIN_CONFIDENCE :: real where "MIN_CONFIDENCE = 0.1"
definition MAX_CONFIDENCE :: real where "MAX_CONFIDENCE = 0.95"

definition ms_per_day :: int where "ms_per_day = 1000 * 60 * 60 * 24"

text \<open>
  \<open>applyDecayToUnusedMemories\<close> computes the decayed confidence of each fetched
  memory from the fetched object and writes it to the store; the fetched objects
  themselves are not changed.
\<close>

definition decayedConfidence :: "int \<Rightarrow> Memory \<Rightarrow> real option" where
  "decayedConfidence now memory =
     (let daysSinceEpoch = now div ms_per_day;
          lastUsed = (case lastUsedAt memory of Some t \<Rightarrow> t | None \<Rightarrow> createdAt memory);
          daysSinceLastUse = daysSinceEpoch - lastUsed div ms_per_day
      in if daysSinceLastUse > 7
         then (let decayFactor = CONFIDENCE_DECAY_RATE ^ nat (daysSinceLastUse - 7);
                   newConfidence = max (confidence memory * decayFactor) MIN_CONFIDENCE
               in if newConfidence \<noteq> confidence memory then Some newConfidence else None)
         else None)"

fun applyDecayToUnusedMemories :: "int \<Rightarrow> Memory list \<Rightarrow> store \<Rightarrow> store" where
  "applyDecayToUnusedMemories now [] db = db"
| "applyDecayToUnusedMemories now (memory # memories) db =
     applyDecayToUnusedMemories now memories
       (case decayedConfidence now memory of
          Some newConfidence \<Rightarrow> updateMemoryConfidence (mem_id memory) newConfidence now db
        | None \<Rightarrow> db)"

text \<open>
  The caller's partial query is spread over the defaults: a field the caller leaves out
  keeps its default.
\<close>

definition fullQuery :: "string \<Rightarrow> MemoryQuery \<Rightarrow> MemoryQuery" where
  "fullQuery inv_vendor query =
     query\<lparr> q_vendor := (case q_vendor query of None \<Rightarrow> Some inv_vendor | v \<Rightarrow> v),
            minConfidence := (case minConfidence query of None \<Rightarrow> Some 0.3 | c \<Rightarrow> c),
            limit := (case limit query of None \<Rightarrow> Some 50 | l \<Rightarrow> l) \<rparr>"

definition mgr_recallMemories ::
  "string \<Rightarrow> MemoryQuery \<Rightarrow> int \<Rightarrow> store \<Rightarrow> Memory list \<times> store" where
  "mgr_recallMemories inv_vendor query now db =
     (let fq = fullQuery inv_vendor query;
          memories = queryMemories fq db;
          db' = applyDecayToUnusedMemories now memories db
      in (filter (\<lambda>m. confidence m \<ge>
                        (if truthy_real (minConfidence fq) then the (minConfidence fq) else 0.3))
            memories, db'))"

text \<open>
  The identifier of a new memory comes from \<open>uuidv4()\<close>; the model takes it as the
  argument \<open>newId\<close>.  A missing \<open>initialConfidence\<close> is \<open>None\<close>.
\<close>

definition createVendorMemory ::
  "string \<Rightarrow> string \<Rightarrow> string \<Rightarrow> vendor_action \<Rightarrow> string \<Rightarrow> real option \<Rightarrow> int \<Rightarrow> store
     \<Rightarrow> Memory \<times> store" where
  "createVendorMemory newId vendor' triggerSignal' action' pattern' initialConfidence now db =
     (let memory = \<lparr> mem_id = newId, mem_vendor = vendor',
                      confidence = min (case initialConfidence of None \<Rightarrow> 0.5 | Some c \<Rightarrow> c)
                                       MAX_CONFIDENCE,
                      usageCount = 0, createdAt = now, lastUsedAt = None, lastUpdatedAt = now,
                      isActive = True,
                      variant = VendorMemory triggerSignal' action' pattern' \<rparr>
      in (memory, saveMemory memory db))"

definition createCorrectionMemory ::
  "string \<Rightarrow> string \<Rightarrow> string \<Rightarrow> string \<Rightarrow> jsval \<Rightarrow> string \<Rightarrow> real option \<Rightarrow> int \<Rightarrow> store
     \<Rightarrow> Memory \<times> store" where
  "createCorrectionMemory newId vendor' fieldName' originalPattern' correctedValue'
       correctionReason' initialConfidence now db =
     (let memory = \<lparr> mem_id = newId, mem_vendor = vendor',
                      confidence = min (case initialConfidence of None \<Rightarrow> 0.4 | Some c \<Rightarrow> c)
                                       MAX_CONFIDENCE,
                      usageCount = 0, createdAt = now, lastUsedAt = None, lastUpdatedAt = now,
                      isActive = True,
                      variant = CorrectionMemory fieldName' originalPattern' correctedValue'
                                  correctionReason' 0 0 \<rparr>
      in (memory, saveMemory memory db))"

definition createResolutionMemory ::
  "string \<Rightarrow> string \<Rightarrow> string \<Rightarrow> outcome \<Rightarrow> string \<Rightarrow> string option \<Rightarrow> real option \<Rightarrow> int
     \<Rightarrow> store \<Rightarrow> Memory \<times> store" where
  "createResolutionMemory newId vendor' scenario' outcome' systemAction' humanFeedback'
       initialConfidence now db =
     (let memory = \<lparr> mem_id = newId, mem_vendor = vendor',
                      confidence = min (case initialConfidence of None \<Rightarrow> 0.6 | Some c \<Rightarrow> c)
                                       MAX_CONFIDENCE,
                      usageCount = 0, createdAt = now, lastUsedAt = None, lastUpdatedAt = now,
                      isActive = True,
                      variant = ResolutionMemory scenario' outcome' humanFeedback'
                                  systemAction' \<rparr>
      in (memory, saveMemory memory db))"

text \<open>
  \<open>reinforceMemory\<close> and \<open>weakenMemory\<close> look the memory up among the active
  memories, update the row's confidence, and then, for a correction memory, save the
  fetched object again with one counter incremented.  The fetched object still has the
  confidence, usage count and timestamps it was fetched with.
\<close>

text \<open>
  \<open>weakenMemory\<close> tests the confidence it has computed against the floor, and the
  test does not survive the idealisation of numbers as reals: in binary floating point
  \<open>0.4 - 0.3\<close> is \<open>0.10000000000000003\<close>, above the floor, and
  \<open>0.3 - 0.2\<close> is \<open>0.09999999999999998\<close>, below it.  So the subtraction of
  \<open>weakenMemory\<close> is a parameter of the model: any function whose result does not
  exceed the minuend when the subtrahend is not negative, which holds of the rounded
  difference of two floating-point numbers and of the exact difference.
\<close>

typedef float_sub = "{f :: real \<Rightarrow> real \<Rightarrow> real. \<forall>x y. 0 \<le> y \<longrightarrow> f x y \<le> x}"
  by (rule exI [of _ "\<lambda>x y. x - y"]) simp

setup_lifting type_definition_float_sub

lift_definition fsub :: "float_sub \<Rightarrow> real \<Rightarrow> real \<Rightarrow> real" is "\<lambda>f. f" .

lift_definition exact_sub :: float_sub is "\<lambda>x y. x - y"
  by simp

text \<open>
  A subtraction that gives what binary floating point gives for \<open>0.4 - 0.3\<close>, and the
  exact difference elsewhere.
\<close>

lift_definition rounded_sub_example :: float_sub
  is "\<lambda>x y. if x = 0.4 \<and> y = 0.3 then 0.10000000000000003 else x - y"
  by simp

definition bump_approval :: "Memory \<Rightarrow> Memory" where
  "bump_approval m =
     (case variant m of
        CorrectionMemory f p v r a j \<Rightarrow> m\<lparr> variant := CorrectionMemory f p v r (a + 1) j \<rparr>
      | _ \<Rightarrow> m)"

definition bump_rejection :: "Memory \<Rightarrow> Memory" where
  "bump_rejection m =
     (case variant m of
        CorrectionMemory f p v r a j \<Rightarrow> m\<lparr> variant := CorrectionMemory f p v r a (j + 1) \<rparr>
      | _ \<Rightarrow> m)"

definition reinforceMemory :: "string \<Rightarrow> real option \<Rightarrow> int \<Rightarrow> store \<Rightarrow> store" where
  "reinforceMemory memoryId strength now db =
     (case find (\<lambda>m. mem_id m = memoryId) (queryMemories empty_query db) of
        None \<Rightarrow> db
      | Some memory \<Rightarrow>
          (let increase = min (case strength of None \<Rightarrow> 0.1 | Some x \<Rightarrow> x)
                              MAX_CONFIDENCE_INCREASE;
               newConfidence = min (confidence memory + increase) MAX_CONFIDENCE;
               db1 = updateMemoryConfidence memoryId newConfidence now db;
               db2 = updateMemoryUsage memoryId now db1
           in if memory_type memory = correction
              then saveMemory (bump_approval memory) db2
              else db2))"

definition weakenMemory ::
  "float_sub \<Rightarrow> string \<Rightarrow> real option \<Rightarrow> int \<Rightarrow> store \<Rightarrow> store" where
  "weakenMemory fs memoryId strength now db =
     (case find (\<lambda>m. mem_id m = memoryId) (queryMemories empty_query db) of
        None \<Rightarrow> db
      | Some memory \<Rightarrow>
          (let decrease = min (case strength of None \<Rightarrow> 0.2 | Some x \<Rightarrow> x) 0.3;
               newConfidence = max (fsub fs (confidence memory) decrease) MIN_CONFIDENCE;
               db1 = updateMemoryConfidence memoryId newConfidence now db;
               memory1 = (if memory_type memory = correction
                          then bump_rejection memory else memory);
               db2 = (if memory_type memory = correction
                      then saveMemory memory1 db1 else db1)
           in if newConfidence \<le> MIN_CONFIDENCE
              then saveMemory (memory1\<lparr> isActive := False \<rparr>) db2
              else db2))"

section \<open>Invoices\<close>

text \<open>
  \<open>extractedData\<close> is an object with known optional fields and arbitrary extra
  ones, read by name (\<open>extractedData[action.sourceField]\<close>); it is an association
  list from property names to values, in insertion order.  The \<open>Invoice\<close>
  interface types the known fields: \<open>amount\<close> and \<open>vatAmount\<close> are numbers,
  \<open>lineItems\<close> is an array of objects whose \<open>description\<close> is a string and
  whose \<open>totalPrice\<close>, when present, is a number.  Where the code computes with a
  field of another shape, which the type excludes, the model takes the field as missing.
\<close>

record Metadata =
  source :: string
  extractedAt :: string
  processingId :: string

record Invoice =
  inv_id :: string
  inv_vendor :: string
  rawText :: string
  extractedData :: "(string \<times> jsval) list"
  metadata :: Metadata

definition get_field :: "Invoice \<Rightarrow> string \<Rightarrow> jsval option" where
  "get_field invoice k = map_of (extractedData invoice) k"

definition truthy :: "jsval option \<Rightarrow> bool" where
  "truthy v =
     (case v of
        None \<Rightarrow> False
      | Some JNull \<Rightarrow> False
      | Some (JBool b) \<Rightarrow> b
      | Some (JNum x) \<Rightarrow> x \<noteq> 0
      | Some JNaN \<Rightarrow> False
      | Some (JStr s) \<Rightarrow> s \<noteq> []
      | Some _ \<Rightarrow> True)"

definition item_field :: "jsval \<Rightarrow> string \<Rightarrow> jsval option" where
  "item_field item k = (case item of JObj kvs \<Rightarrow> map_of kvs k | _ \<Rightarrow> None)"

definition lineItems_of :: "Invoice \<Rightarrow> jsval list option" where
  "lineItems_of invoice =
     (case get_field invoice ''lineItems'' of Some (JArr items) \<Rightarrow> Some items | _ \<Rightarrow> None)"

section \<open>Text matching\<close>

text \<open>
  The fixed regular expressions of the processor, as functions on strings.  The classes
  of white space, digits and word characters are restricted to the 8-bit characters.  A
  regular expression matches at the leftmost position where it can; \<open>exists_at\<close>
  and \<open>first_at\<close> try the positions from left to right.  In each expression a
  greedy \<open>*\<close> is followed by a character outside its class, so giving back
  characters never helps and the longest run is the only one to try.
\<close>

definition is_space :: "char \<Rightarrow> bool" where
  "is_space c = (c \<in> set [CHR 0x09, CHR 0x0A, CHR 0x0B, CHR 0x0C, CHR 0x0D, CHR 0x20, CHR 0xA0])"

definition is_digit :: "char \<Rightarrow> bool" where
  "is_digit c = (c \<in> set ''0123456789'')"

definition is_word :: "char \<Rightarrow> bool" where
  "is_word c =
     (c \<in> set ''abcdefghijklmnopqrstuvwxyzABCDEFGHIJKLMNOPQRSTUVWXYZ0123456789_'')"

definition prefix_ci :: "string \<Rightarrow> string \<Rightarrow> bool" where
  "prefix_ci p s = prefix (map ascii_upper p) (map ascii_upper s)"

fun exists_at :: "(string \<Rightarrow> bool) \<Rightarrow> string \<Rightarrow> bool" where
  "exists_at P [] = P []"
| "exists_at P (c # s) = (P (c # s) \<or> exists_at P s)"

fun first_at :: "(string \<Rightarrow> 'a option) \<Rightarrow> string \<Rightarrow> 'a option" where
  "first_at f [] = f []"
| "first_at f (c # s) = (case f (c # s) of Some r \<Rightarrow> Some r | None \<Rightarrow> first_at f s)"

text \<open>\<open>s.includes(t)\<close>, and its variant that folds ASCII letters.\<close>

definition str_includes :: "string \<Rightarrow> string \<Rightarrow> bool" where
  "str_includes s t = exists_at (prefix t) s"

definition includes_ci :: "string \<Rightarrow> string \<Rightarrow> bool" where
  "includes_ci s t = exists_at (prefix_ci t) s"

text \<open>
  The pattern of \<open>applyVendorMemory\<close> for the service date: the label
  \<open>Leistungsdatum:\<close>, any white space, and a date of four, two and two digits
  separated by hyphens, which is captured.
\<close>

definition date_at :: "string \<Rightarrow> string option" where
  "date_at s =
     (if length s \<ge> 10
         \<and> list_all is_digit (take 4 s) \<and> s ! 4 = CHR ''-''
         \<and> list_all is_digit (take 2 (drop 5 s)) \<and> s ! 7 = CHR ''-''
         \<and> list_all is_digit (take 2 (drop 8 s))
      then Some (take 10 s) else None)"

definition leistungsdatum_at :: "string \<Rightarrow> string option" where
  "leistungsdatum_at s =
     (if prefix ''Leistungsdatum:'' s
      then date_at (dropWhile is_space (drop (length ''Leistungsdatum:'') s))
      else None)"

definition match_leistungsdatum :: "string \<Rightarrow> string option" where
  "match_leistungsdatum text = first_at leistungsdatum_at text"

text \<open>
  \<open>vatIncludedPatterns\<close>: \<open>MwSt.\<close>, any white space, \<open>inkl.\<close>; or
  \<open>Prices\<close>, any white space, \<open>incl.\<close>, any white space, \<open>VAT\<close>;
  without regard to case.
\<close>

definition vat_included_at :: "string \<Rightarrow> bool" where
  "vat_included_at s =
     ((prefix_ci ''MwSt.'' s \<and> prefix_ci ''inkl.'' (dropWhile is_space (drop 5 s)))
      \<or> (prefix_ci ''Prices'' s
          \<and> (let r = dropWhile is_space (drop 6 s)
             in prefix_ci ''incl.'' r \<and> prefix_ci ''VAT'' (dropWhile is_space (drop 5 r)))))"

definition test_vatIncludedPatterns :: "string \<Rightarrow> bool" where
  "test_vatIncludedPatterns text = exists_at vat_included_at text"

text \<open>
  \<open>poPattern\<close>: \<open>PO\<close> without regard to case, any run of colons and white
  space, and a non-empty run of word characters, which is captured.
\<close>

definition po_at :: "string \<Rightarrow> string option" where
  "po_at s =
     (if prefix_ci ''PO'' s
      then (let r = dropWhile (\<lambda>c. c = CHR '':'' \<or> is_space c) (drop 2 s);
                w = takeWhile is_word r
            in if w \<noteq> [] then Some w else None)
      else None)"

definition match_poPattern :: "string \<Rightarrow> string option" where
  "match_poPattern text = first_at po_at text"

section \<open>The JavaScript runtime\<close>

text \<open>
  Two services of the runtime are parameters of the model: the regular-expression engine
  on a pattern that a memory supplies (\<open>new RegExp(pattern, 'i').test(text)\<close>, with
  \<open>None\<close> when the constructor throws on the pattern), and the conversion of a
  number to a string.
\<close>

record js_runtime =
  regExpTest :: "string \<Rightarrow> string \<Rightarrow> bool option"
  numberToString :: "real \<Rightarrow> string"

text \<open>\<open>Array.prototype.join\<close> and \<open>String(value)\<close>.\<close>

fun join_with :: "string \<Rightarrow> string list \<Rightarrow> string" where
  "join_with sep [] = []"
| "join_with sep [x] = x"
| "join_with sep (x # y # ys) = x @ sep @ join_with sep (y # ys)"

fun js_String :: "js_runtime \<Rightarrow> jsval \<Rightarrow> string" where
  "js_String rt JNull = ''null''"
| "js_String rt (JBool b) = (if b then ''true'' else ''false'')"
| "js_String rt (JNum x) = numberToString rt x"
| "js_String rt (JInf pos) = (if pos then ''Infinity'' else ''-Infinity'')"
| "js_String rt JNaN = ''NaN''"
| "js_String rt (JStr s) = s"
| "js_String rt (JArr xs) =
     join_with '','' (map (\<lambda>x. if x = JNull then [] else js_String rt x) xs)"
| "js_String rt (JObj kvs) = ''[object Object]''"

section \<open>Applying one memory\<close>

text \<open>
  What the first part of \<open>applyVendorMemory\<close> leaves in \<open>proposedValue\<close>: an early
  \<open>return null\<close>, or a value (\<open>None\<close> for \<open>undefined\<close>) together with the
  key of \<open>extractedData\<close> it was read from, when it was read from there.  The key is
  needed for \<open>===\<close> on arrays and objects, which compares references: a value read
  from a slot is identical to the content of that slot only, values of different slots
  being different objects.  \<open>NaN\<close> is not identical to anything.
\<close>

datatype candidate = ReturnNull | Proposed "jsval option" "string option"

definition is_primitive :: "jsval \<Rightarrow> bool" where
  "is_primitive v = (case v of JArr _ \<Rightarrow> False | JObj _ \<Rightarrow> False | _ \<Rightarrow> True)"

definition strict_equal_slot :: "Invoice \<Rightarrow> jsval \<Rightarrow> string option \<Rightarrow> string \<Rightarrow> bool" where
  "strict_equal_slot invoice v src target =
     (case get_field invoice target of
        None \<Rightarrow> False
      | Some cur \<Rightarrow> if v = JNaN then False
                    else if is_primitive v then v = cur
                    else src = Some target)"

text \<open>
  The currency patterns are "euro sign, EUR or euro", "dollar sign, USD or dollar" and
  "pound sign, GBP or pound", each without regard to case, tried in this order.  The euro
  sign is not an 8-bit character, so its alternative has no counterpart here; the pound
  sign is U+00A3.
\<close>

fun po_from_items :: "jsval list \<Rightarrow> string option" where
  "po_from_items [] = None"
| "po_from_items (item # items) =
     (case (case item_field item ''description'' of
              Some (JStr d) \<Rightarrow> match_poPattern d
            | _ \<Rightarrow> None) of
        Some m \<Rightarrow> Some m
      | None \<Rightarrow> po_from_items items)"

definition performInference :: "Invoice \<Rightarrow> vendor_action \<Rightarrow> jsval option" where
  "performInference invoice action' =
     (if strategy action' = Some ''po_from_items''
      then (if \<not> truthy (get_field invoice ''poNumber'')
               \<and> truthy (get_field invoice ''lineItems'')
            then (case lineItems_of invoice of
                    None \<Rightarrow> None
                  | Some items \<Rightarrow> map_option JStr (po_from_items items))
            else None)
      else if strategy action' = Some ''currency_from_text''
      then (if includes_ci (rawText invoice) ''EUR'' \<or> includes_ci (rawText invoice) ''euro''
            then Some (JStr ''EUR'')
            else if str_includes (rawText invoice) ''$'' \<or> includes_ci (rawText invoice) ''USD''
                    \<or> includes_ci (rawText invoice) ''dollar''
            then Some (JStr ''USD'')
            else if str_includes (rawText invoice) [CHR 0xA3]
                    \<or> includes_ci (rawText invoice) ''GBP''
                    \<or> includes_ci (rawText invoice) ''pound''
            then Some (JStr ''GBP'')
            else None)
      else None)"

text \<open>
  The arithmetic of \<open>performComputation\<close> on numbers that may be infinite: sum and
  quotient as JavaScript computes them, with finite results idealised as reals.  The
  only divisor that is zero here is the sum \<open>1 + vatRate\<close>, which is a positive zero,
  so the quotient has the sign of the dividend.  \<open>Math.round\<close> rounds halves up and
  leaves infinities and \<open>NaN\<close> as they are.
\<close>

definition is_number :: "jsval \<Rightarrow> bool" where
  "is_number v = (case v of JNum _ \<Rightarrow> True | JInf _ \<Rightarrow> True | JNaN \<Rightarrow> True | _ \<Rightarrow> False)"

fun num_add :: "jsval \<Rightarrow> jsval \<Rightarrow> jsval" where
  "num_add (JNum a) (JNum b) = JNum (a + b)"
| "num_add (JNum a) (JInf q) = JInf q"
| "num_add (JInf p) (JNum b) = JInf p"
| "num_add (JInf p) (JInf q) = (if p = q then JInf p else JNaN)"
| "num_add _ _ = JNaN"

fun num_div :: "jsval \<Rightarrow> jsval \<Rightarrow> jsval" where
  "num_div (JNum a) (JNum b) =
     (if b \<noteq> 0 then JNum (a / b) else if a = 0 then JNaN else JInf (a > 0))"
| "num_div (JNum a) (JInf q) = JNum 0"
| "num_div (JInf p) (JNum b) = (if b < 0 then JInf (\<not> p) else JInf p)"
| "num_div _ _ = JNaN"

definition math_round :: "real \<Rightarrow> real" where
  "math_round x = of_int \<lfloor>x + 1 / 2\<rfloor>"

text \<open>\<open>Math.round(netAmount * 100) / 100\<close>\<close>

definition round_to_cents :: "jsval \<Rightarrow> jsval" where
  "round_to_cents v = (case v of JNum x \<Rightarrow> JNum (math_round (x * 100) / 100) | _ \<Rightarrow> v)"

definition performComputation :: "Invoice \<Rightarrow> vendor_action \<Rightarrow> jsval option" where
  "performComputation invoice action' =
     (if strategy action' = Some ''vat_included_adjustment''
      then (if truthy (get_field invoice ''vatIncluded'') \<and> truthy (get_field invoice ''amount'')
               \<and> is_number (the (get_field invoice ''amount''))
            then (let amount = the (get_field invoice ''amount'');
                      vatRate = (if truthy (get_field invoice ''vatAmount'')
                                    \<and> is_number (the (get_field invoice ''vatAmount''))
                                 then the (get_field invoice ''vatAmount'') else JNum 0.19);
                      netAmount = num_div amount (num_add (JNum 1) vatRate)
                  in Some (round_to_cents netAmount))
            else None)
      else if strategy action' = Some ''total_from_items''
      then (if truthy (get_field invoice ''lineItems'')
            then (case lineItems_of invoice of
                    None \<Rightarrow> None
                  | Some items \<Rightarrow>
                      Some (foldl (\<lambda>sum item.
                                     num_add sum
                                       (if truthy (item_field item ''totalPrice'')
                                           \<and> is_number (the (item_field item ''totalPrice''))
                                        then the (item_field item ''totalPrice'') else JNum 0))
                              (JNum 0) items))
            else None)
      else None)"

definition vendor_candidate :: "Invoice \<Rightarrow> string \<Rightarrow> vendor_action \<Rightarrow> candidate" where
  "vendor_candidate invoice trigger action' =
     (case act_type action' of
        field_mapping \<Rightarrow>
          if strategy action' = Some ''extract_from_text'' \<and> trigger = ''Leistungsdatum''
          then Proposed (map_option JStr (match_leistungsdatum (rawText invoice))) None
          else if truthy_string (sourceField action')
                  \<and> truthy (get_field invoice (the (sourceField action')))
          then Proposed (get_field invoice (the (sourceField action'))) (sourceField action')
          else if act_value action' \<noteq> None
          then Proposed (act_value action') None
          else ReturnNull
      | inference \<Rightarrow> Proposed (performInference invoice action') None
      | computation \<Rightarrow>
          if strategy action' = Some ''vat_included_detection''
          then Proposed (if test_vatIncludedPatterns (rawText invoice)
                         then Some (JBool True) else None) None
          else Proposed (performComputation invoice action') None)"

definition applyVendorMemory :: "Invoice \<Rightarrow> Memory \<Rightarrow> Correction option" where
  "applyVendorMemory invoice memory =
     (case variant memory of
        VendorMemory trigger action' _ \<Rightarrow>
          (let triggerFound = (str_includes (rawText invoice) trigger
                               \<or> trigger = inv_vendor invoice)
           in if \<not> triggerFound then None
              else (case vendor_candidate invoice trigger action' of
                      ReturnNull \<Rightarrow> None
                    | Proposed None _ \<Rightarrow> None
                    | Proposed (Some v) src \<Rightarrow>
                        if strict_equal_slot invoice v src (targetField action') then None
                        else Some \<lparr> field = targetField action',
                                    originalValue = get_field invoice (targetField action'),
                                    proposedValue = v,
                                    corr_confidence = confidence memory,
                                    memorySource = mem_id memory,
                                    corr_reasoning =
                                      VendorMemoryReasoning trigger (targetField action')
                                        (act_type action') \<rparr>))
      | _ \<Rightarrow> None)"

definition matchesPattern :: "js_runtime \<Rightarrow> jsval option \<Rightarrow> string \<Rightarrow> bool" where
  "matchesPattern rt v pat =
     (if pat = ''human_correction'' then True
      else (let valueStr = (if truthy v then js_String rt (the v) else [])
            in case regExpTest rt pat valueStr of
                 Some b \<Rightarrow> b
               | None \<Rightarrow> str_includes valueStr pat))"

definition applyCorrectionMemory :: "js_runtime \<Rightarrow> Invoice \<Rightarrow> Memory \<Rightarrow> Correction option" where
  "applyCorrectionMemory rt invoice memory =
     (case variant memory of
        CorrectionMemory fieldName' originalPattern' correctedValue' correctionReason'
            approvalCount' _ \<Rightarrow>
          (let currentValue = get_field invoice fieldName'
           in if originalPattern' = ''human_correction''
                 \<or> matchesPattern rt currentValue originalPattern'
              then Some \<lparr> field = fieldName', originalValue = currentValue,
                          proposedValue = correctedValue',
                          corr_confidence = confidence memory,
                          memorySource = mem_id memory,
                          corr_reasoning =
                            CorrectionMemoryReasoning correctionReason' approvalCount' \<rparr>
              else None)
      | _ \<Rightarrow> None)"

definition applyMemory :: "js_runtime \<Rightarrow> Invoice \<Rightarrow> Memory \<Rightarrow> Correction option" where
  "applyMemory rt invoice memory =
     (case memory_type memory of
        vendor \<Rightarrow> applyVendorMemory invoice memory
      | correction \<Rightarrow> applyCorrectionMemory rt invoice memory
      | resolution \<Rightarrow> None)"

section \<open>The recall stage\<close>

definition lineItem_lacks_sku :: "jsval \<Rightarrow> bool" where
  "lineItem_lacks_sku item = (\<not> truthy (item_field item ''sku''))"

definition detectFieldIssues :: "Invoice \<Rightarrow> string list" where
  "detectFieldIssues invoice =
     (if \<not> truthy (get_field invoice ''serviceDate'') \<and> truthy (get_field invoice ''date'')
      then [''serviceDate''] else [])
     @ (if \<not> truthy (get_field invoice ''currency'') then [''currency''] else [])
     @ (if \<not> truthy (get_field invoice ''poNumber'') then [''poNumber''] else [])
     @ (if get_field invoice ''vatIncluded'' = None then [''vatIncluded''] else [])
     @ (if \<not> truthy (get_field invoice ''vatAmount'') \<and> truthy (get_field invoice ''amount'')
        then [''vatAmount''] else [])
     @ (if truthy (get_field invoice ''lineItems'')
        then (case lineItems_of invoice of
                Some items \<Rightarrow> if list_ex lineItem_lacks_sku items then [''lineItems''] else []
              | None \<Rightarrow> [])
        else [])"

definition categorizeInvoiceScenario :: "Invoice \<Rightarrow> string" where
  "categorizeInvoiceScenario invoice =
     (let scenarios =
            (if \<not> truthy (get_field invoice ''poNumber'') then [''missing_po''] else [])
            @ (if \<not> truthy (get_field invoice ''serviceDate'')
               then [''missing_service_date''] else [])
            @ (if truthy (get_field invoice ''vatIncluded'') then [''vat_included''] else [])
            @ (if \<not> truthy (get_field invoice ''currency'') then [''missing_currency''] else []);
          joined = join_with ''_'' scenarios
      in if joined \<noteq> [] then joined else ''standard'')"

fun recall_fields :: "Invoice \<Rightarrow> string list \<Rightarrow> int \<Rightarrow> store \<Rightarrow> Memory list \<times> store" where
  "recall_fields invoice [] now db = ([], db)"
| "recall_fields invoice (f # fs) now db =
     (let (correctionMemories, db1) =
            mgr_recallMemories (inv_vendor invoice)
              (empty_query\<lparr> q_type := Some correction, q_fieldName := Some f \<rparr>) now db;
          (rest, db2) = recall_fields invoice fs now db1
      in (correctionMemories @ rest, db2))"

definition proc_recallMemories :: "Invoice \<Rightarrow> int \<Rightarrow> store \<Rightarrow> Memory list \<times> store" where
  "proc_recallMemories invoice now db =
     (let (vendorMemories, db1) =
            mgr_recallMemories (inv_vendor invoice) (empty_query\<lparr> q_type := Some vendor \<rparr>)
              now db;
          fieldIssues = detectFieldIssues invoice;
          (correctionMemories, db2) = recall_fields invoice fieldIssues now db1;
          scenario' = categorizeInvoiceScenario invoice;
          (resolutionMemories, db3) =
            mgr_recallMemories (inv_vendor invoice)
              (empty_query\<lparr> q_type := Some resolution \<rparr>) now db2
      in (vendorMemories @ correctionMemories
          @ filter (\<lambda>m. case variant m of
                           ResolutionMemory sc _ _ _ \<Rightarrow> str_includes sc scenario'
                         | _ \<Rightarrow> False)
              resolutionMemories,
          db3))"

section \<open>The apply stage\<close>

datatype update_type = create | reinforce | weaken | decay

record MemoryUpdate =
  upd_type :: update_type
  upd_memoryId :: "string option"
  upd_details :: string

text \<open>
  The \<open>Map\<close> from field to corrections, in insertion order.  A conflict message is
  a template around the field; \<open>detectMemoryConflicts\<close> returns the fields.  The
  set of the serialisations of a field's proposed values has more than one element when
  their round trips are not all equal.
\<close>

fun group_add :: "Correction \<Rightarrow> (string \<times> Correction list) list \<Rightarrow> (string \<times> Correction list) list"
  where
  "group_add c [] = [(field c, [c])]"
| "group_add c ((f, cs) # m) =
     (if f = field c then (f, cs @ [c]) # m else (f, cs) # group_add c m)"

definition group_by_field :: "Correction list \<Rightarrow> (string \<times> Correction list) list" where
  "group_by_field corrections = foldl (\<lambda>m c. group_add c m) [] corrections"

definition detectMemoryConflicts :: "Correction list \<Rightarrow> string list" where
  "detectMemoryConflicts corrections =
     map fst
       (filter (\<lambda>(f, fieldCorrs).
                  length fieldCorrs > 1
                  \<and> length (remdups (map (\<lambda>c. json_roundtrip (proposedValue c)) fieldCorrs)) > 1)
          (group_by_field corrections))"

text \<open>
  The loop of \<open>applyMemories\<close> over the recalled memories.  The memories are the
  objects that the recall returned; the reinforcement of an applied memory changes the
  store, not these objects.
\<close>

record apply_state =
  as_corrections :: "Correction list"
  as_updates :: "MemoryUpdate list"
  as_totalConfidence :: real
  as_appliedCount :: nat
  as_db :: store

fun applyMemories_loop ::
  "js_runtime \<Rightarrow> Invoice \<Rightarrow> int \<Rightarrow> Memory list \<Rightarrow> apply_state \<Rightarrow> apply_state" where
  "applyMemories_loop rt invoice now [] st = st"
| "applyMemories_loop rt invoice now (memory # memories) st =
     (if confidence memory < memoryApplication thresholds
      then applyMemories_loop rt invoice now memories st
      else (case applyMemory rt invoice memory of
              None \<Rightarrow> applyMemories_loop rt invoice now memories st
            | Some c \<Rightarrow>
                applyMemories_loop rt invoice now memories
                  \<lparr> as_corrections = as_corrections st @ [c],
                    as_updates = as_updates st
                      @ [\<lparr> upd_type = reinforce, upd_memoryId = Some (mem_id memory),
                            upd_details = ''Applied memory for '' @ field c @ '' correction'' \<rparr>],
                    as_totalConfidence = as_totalConfidence st * confidence memory,
                    as_appliedCount = as_appliedCount st + 1,
                    as_db = reinforceMemory (mem_id memory) (Some 0.02) now (as_db st) \<rparr>))"

record apply_result =
  ar_corrections :: "Correction list"
  ar_confidence :: real
  ar_updates :: "MemoryUpdate list"

definition applyMemories ::
  "js_runtime \<Rightarrow> Invoice \<Rightarrow> Memory list \<Rightarrow> int \<Rightarrow> store \<Rightarrow> apply_result \<times> store" where
  "applyMemories rt invoice memories now db =
     (let st = applyMemories_loop rt invoice now memories
                 \<lparr> as_corrections = [], as_updates = [], as_totalConfidence = 1.0,
                   as_appliedCount = 0, as_db = db \<rparr>;
          conflicts = detectMemoryConflicts (as_corrections st);
          totalConfidence = (if length conflicts > 0 then as_totalConfidence st * 0.7
                             else as_totalConfidence st)
      in (\<lparr> ar_corrections = as_corrections st,
            ar_confidence = (if as_appliedCount st > 0 then totalConfidence else 0.9),
            ar_updates = as_updates st \<rparr>,
          as_db st))"

section \<open>The learn stage and the normalized invoice\<close>

definition identifyLearningOpportunities :: "Correction list \<Rightarrow> string list" where
  "identifyLearningOpportunities corrections =
     (if length corrections = 0 then [''successful_processing''] else [])
     @ map (\<lambda>c. ''correction_'' @ field c) corrections"

text \<open>
  Invoices are objects, and \<open>applyCorrections\<close> writes to one.  The heap holds the
  three objects of an invoice in cells: the invoice itself, with references to its
  \<open>extractedData\<close> and \<open>metadata\<close> objects.  The values inside
  \<open>extractedData\<close> are never written to, and stay values.  Addresses below
  \<open>free\<close> are in use.
\<close>

type_synonym addr = nat

record invoice_obj =
  obj_id :: string
  obj_vendor :: string
  obj_rawText :: string
  obj_extractedData :: addr
  obj_metadata :: addr

record heap =
  invoice_at :: "addr \<Rightarrow> invoice_obj"
  data_at :: "addr \<Rightarrow> (string \<times> jsval) list"
  metadata_at :: "addr \<Rightarrow> Metadata"
  free :: addr

definition read_invoice :: "heap \<Rightarrow> addr \<Rightarrow> Invoice" where
  "read_invoice h a =
     (let ob = invoice_at h a
      in \<lparr> inv_id = obj_id ob, inv_vendor = obj_vendor ob, rawText = obj_rawText ob,
            extractedData = data_at h (obj_extractedData ob),
            metadata = metadata_at h (obj_metadata ob) \<rparr>)"

text \<open>
  \<open>JSON.parse(JSON.stringify(invoice))\<close>: three new objects, whose content is
  the round trip of the content of the old ones.  Strings come back as they were.
\<close>

definition json_clone :: "heap \<Rightarrow> addr \<Rightarrow> addr \<times> heap" where
  "json_clone h a =
     (let ob = invoice_at h a; n = free h
      in (n,
          h\<lparr> invoice_at := (invoice_at h)
                 (n := ob\<lparr> obj_extractedData := n, obj_metadata := n \<rparr>),
             data_at := (data_at h)
                 (n := map (map_prod id json_roundtrip) (data_at h (obj_extractedData ob))),
             metadata_at := (metadata_at h)(n := metadata_at h (obj_metadata ob)),
             free := n + 1 \<rparr>))"

text \<open>
  \<open>normalizedInvoice.extractedData[k] = v\<close>: the property is updated in place, or
  added at the end when the object does not have it.
\<close>

definition set_extracted :: "heap \<Rightarrow> addr \<Rightarrow> string \<Rightarrow> jsval \<Rightarrow> heap" where
  "set_extracted h a k v =
     (let d = obj_extractedData (invoice_at h a)
      in h\<lparr> data_at := (data_at h)(d := AList.update k v (data_at h d)) \<rparr>)"

definition applyCorrections :: "heap \<Rightarrow> addr \<Rightarrow> Correction list \<Rightarrow> addr \<times> heap" where
  "applyCorrections h invoice corrections =
     (let (normalizedInvoice, h1) = json_clone h invoice
      in (normalizedInvoice,
          foldl (\<lambda>h' c. set_extracted h' normalizedInvoice (field c) (proposedValue c))
            h1 corrections))"

section \<open>The pipeline\<close>

datatype audit_step = step_recall | step_apply | step_decide | step_learn

text \<open>The details of an audit entry are templates too; the model keeps their arguments.\<close>

datatype audit_details =
    RetrievedMemories nat string
  | AppliedCorrections nat real
  | Decision bool decision_reason
  | IdentifiedOpportunities nat

record AuditEntry =
  step :: audit_step
  timestamp :: int
  details :: audit_details
  audit_confidence :: "real option"
  memoryReferences :: "string list option"

record ProcessingResult =
  normalizedInvoice :: addr
  proposedCorrections :: "Correction list"
  requiresHumanReview :: bool
  reasoning :: decision_reason
  confidenceScore :: real
  memoryUpdates :: "MemoryUpdate list"
  auditTrail :: "AuditEntry list"

text \<open>
  \<open>processInvoice\<close> takes the invoice as a reference into the heap and reads it; the
  clock is read once per call, as \<open>now\<close>.
\<close>

definition processInvoice ::
  "js_runtime \<Rightarrow> heap \<Rightarrow> addr \<Rightarrow> int \<Rightarrow> store \<Rightarrow> ProcessingResult \<times> heap \<times> store" where
  "processInvoice rt h invoice_ref now db =
     (let invoice = read_invoice h invoice_ref;
          (relevantMemories, db1) = proc_recallMemories invoice now db;
          audit1 = [\<lparr> step = step_recall, timestamp = now,
                      details = RetrievedMemories (length relevantMemories) (inv_vendor invoice),
                      audit_confidence = None,
                      memoryReferences = Some (map mem_id relevantMemories) \<rparr>];
          (applied, db2) = applyMemories rt invoice relevantMemories now db1;
          proposed = ar_corrections applied;
          updates = ar_updates applied;
          overallConfidence = ar_confidence applied;
          audit2 = audit1
            @ [\<lparr> step = step_apply, timestamp = now,
                  details = AppliedCorrections (length proposed) overallConfidence,
                  audit_confidence = Some overallConfidence,
                  memoryReferences = Some (map memorySource proposed) \<rparr>];
          (requiresReview, decisionReasoning) = makeDecision overallConfidence proposed;
          audit3 = audit2
            @ [\<lparr> step = step_decide, timestamp = now,
                  details = Decision requiresReview decisionReasoning,
                  audit_confidence = Some overallConfidence,
                  memoryReferences = None \<rparr>];
          learningOpportunities = identifyLearningOpportunities proposed;
          audit4 = audit3
            @ [\<lparr> step = step_learn, timestamp = now,
                  details = IdentifiedOpportunities (length learningOpportunities),
                  audit_confidence = None, memoryReferences = None \<rparr>];
          (normalized, h') = applyCorrections h invoice_ref proposed
      in (\<lparr> normalizedInvoice = normalized, proposedCorrections = proposed,
            requiresHumanReview = requiresReview, reasoning = decisionReasoning,
            confidenceScore = overallConfidence, memoryUpdates = updates,
            auditTrail = audit4 \<rparr>,
          h', db2))"

section \<open>Notions used to state the properties of the manager\<close>

definition confidence_in_range :: "store \<Rightarrow> bool" where
  "confidence_in_range db =
     list_all (\<lambda>r. MIN_CONFIDENCE \<le> confidence r \<and> confidence r \<le> MAX_CONFIDENCE) db"

definition given_at_least :: "real \<Rightarrow> real option \<Rightarrow> bool" where
  "given_at_least b x = (case x of None \<Rightarrow> True | Some c \<Rightarrow> b \<le> c)"

text \<open>Two small memories for concrete runs.\<close>

definition ex_vendor_memory :: "real \<Rightarrow> Memory" where
  "ex_vendor_memory c =
     \<lparr> mem_id = ''m1'', mem_vendor = ''Supplier GmbH'', confidence = c, usageCount = 0,
       createdAt = 0, lastUsedAt = None, lastUpdatedAt = 0, isActive = True,
       variant = VendorMemory ''Supplier GmbH''
                   \<lparr> act_type = inference, sourceField = None, targetField = ''currency'',
                     act_value = Some (JStr ''EUR''),
                     strategy = Some ''vendor_default_currency'' \<rparr>
                   ''currency_inference'' \<rparr>"

definition ex_correction_memory :: "real \<Rightarrow> Memory" where
  "ex_correction_memory c =
     \<lparr> mem_id = ''m2'', mem_vendor = ''Supplier GmbH'', confidence = c, usageCount = 0,
       createdAt = 0, lastUsedAt = None, lastUpdatedAt = 0, isActive = True,
       variant = CorrectionMemory ''currency'' ''human_correction'' (JStr ''EUR'')
                   ''Human correction'' 0 0 \<rparr>"

text \<open>
  The operations of the manager that change the store, as data, so that properties can
  speak about any sequence of them.  A create operation carries the identifier that
  \<open>uuidv4()\<close> returned.
\<close>

datatype mgr_op =
    CreateVendor string string string vendor_action string "real option" int
  | CreateCorrection string string string string jsval string "real option" int
  | CreateResolution string string string outcome string "string option" "real option" int
  | Reinforce string "real option" int
  | Weaken float_sub string "real option" int
  | Recall string MemoryQuery int
  | ProcessInvoice js_runtime heap addr int

fun run_op :: "mgr_op \<Rightarrow> store \<Rightarrow> store" where
  "run_op (CreateVendor newId v t a p ic now) db = snd (createVendorMemory newId v t a p ic now db)"
| "run_op (CreateCorrection newId v f op cv cr ic now) db =
     snd (createCorrectionMemory newId v f op cv cr ic now db)"
| "run_op (CreateResolution newId v sc oc sa hf ic now) db =
     snd (createResolutionMemory newId v sc oc sa hf ic now db)"
| "run_op (Reinforce i strength now) db = reinforceMemory i strength now db"
| "run_op (Weaken fs i strength now) db = weakenMemory fs i strength now db"
| "run_op (Recall v q now) db = snd (mgr_recallMemories v q now db)"
| "run_op (ProcessInvoice rt h a now) db = snd (snd (processInvoice rt h a now db))"

fun run_ops :: "mgr_op list \<Rightarrow> store \<Rightarrow> store" where
  "run_ops [] db = db"
| "run_ops (x # xs) db = run_ops xs (run_op x db)"

fun created_id :: "mgr_op \<Rightarrow> string option" where
  "created_id (CreateVendor newId _ _ _ _ _ _) = Some newId"
| "created_id (CreateCorrection newId _ _ _ _ _ _ _) = Some newId"
| "created_id (CreateResolution newId _ _ _ _ _ _ _) = Some newId"
| "created_id _ = None"

text \<open>
  A memory is logically deleted when the store still has a row with its identifier and
  no such row is active.
\<close>

definition deactivated :: "string \<Rightarrow> store \<Rightarrow> bool" where
  "deactivated i db =
     (list_ex (\<lambda>r. mem_id r = i) db \<and> list_all (\<lambda>r. mem_id r = i \<longrightarrow> \<not> isActive r) db)"

section \<open>Notions used to state the properties of the processor\<close>

text \<open>
  The memories that the apply stage applies: those at or above the application threshold
  for which \<open>applyMemory\<close> returns a correction.
\<close>

definition applied_memories :: "js_runtime \<Rightarrow> Invoice \<Rightarrow> Memory list \<Rightarrow> Memory list" where
  "applied_memories rt invoice memories =
     filter (\<lambda>m. confidence m \<ge> memoryApplication thresholds \<and> applyMemory rt invoice m \<noteq> None)
       memories"

text \<open>
  Some field receives two proposed values whose serialisations differ.
\<close>

definition conflicting_serialisations :: "Correction list \<Rightarrow> bool" where
  "conflicting_serialisations corrections =
     list_ex (\<lambda>c1. list_ex (\<lambda>c2. field c1 = field c2
                                \<and> json_roundtrip (proposedValue c1) \<noteq> json_roundtrip (proposedValue c2))
                      corrections)
       corrections"

text \<open>The memories that \<open>processInvoice\<close> recalls for the invoice at a reference.\<close>

definition recalled_for :: "heap \<Rightarrow> addr \<Rightarrow> int \<Rightarrow> store \<Rightarrow> Memory list" where
  "recalled_for h a now db = fst (proc_recallMemories (read_invoice h a) now db)"

definition is_auto_accept :: "decision_reason \<Rightarrow> bool" where
  "is_auto_accept r = (case r of HighConfidence_AutoAccept _ \<Rightarrow> True | _ \<Rightarrow> False)"

text \<open>The value that the last correction naming a field proposes for it.\<close>

fun last_proposed :: "Correction list \<Rightarrow> string \<Rightarrow> jsval option" where
  "last_proposed [] f = None"
| "last_proposed (c # cs) f =
     (case last_proposed cs f of
        Some v \<Rightarrow> Some v
      | None \<Rightarrow> if field c = f then Some (proposedValue c) else None)"

text \<open>An invoice whose three objects are in the used part of the heap.\<close>

definition allocated :: "heap \<Rightarrow> addr \<Rightarrow> bool" where
  "allocated h a =
     (a < free h \<and> obj_extractedData (invoice_at h a) < free h
      \<and> obj_metadata (invoice_at h a) < free h)"

text \<open>
  A runtime, a heap whose one used address holds an invoice of Supplier GmbH without
  currency and with VAT amount 0, and stores for concrete runs.
\<close>

definition ex_runtime :: js_runtime where
  "ex_runtime = \<lparr> regExpTest = (\<lambda>p t. None), numberToString = (\<lambda>x. ''0'') \<rparr>"

definition ex_heap :: heap where
  "ex_heap =
     \<lparr> invoice_at = (\<lambda>_. \<lparr> obj_id = ''inv-001'', obj_vendor = ''Supplier GmbH'',
                           obj_rawText = ''Rechnung Nr: 2024-001 Datum: 2024-01-15 Leistungsdatum: 2024-01-10'',
                           obj_extractedData = 0, obj_metadata = 0 \<rparr>),
       data_at = (\<lambda>_. [(''invoiceNumber'', JStr ''2024-001''), (''date'', JStr ''2024-01-15''),
                       (''amount'', JNum 1190), (''vatAmount'', JNum 0),
                       (''vatIncluded'', JBool False), (''poNumber'', JStr ''PO-1'')]),
       metadata_at = (\<lambda>_. \<lparr> source = ''demo'', extractedAt = ''2024-01-15T10:00:00Z'',
                            processingId = ''p-1'' \<rparr>),
       free = 1 \<rparr>"

text \<open>The same heap, with the amount Infinity (the API parses \<open>1e999\<close> to it).\<close>

definition ex_heap_infinite :: heap where
  "ex_heap_infinite =
     ex_heap\<lparr> data_at := (\<lambda>_. [(''invoiceNumber'', JStr ''2024-001''),
                               (''date'', JStr ''2024-01-15''),
                               (''amount'', JInf True), (''vatAmount'', JNum 0),
                               (''vatIncluded'', JBool False), (''poNumber'', JStr ''PO-1'')]) \<rparr>"

text \<open>
  The first heap again, with one more field: the vendor's own \<open>taxTotal\<close>, which is
  Infinity.  And a store of two memories for the VAT amount: a vendor memory that maps
  \<open>taxTotal\<close> to it, and a human correction that set it to null.
\<close>

definition ex_heap_taxTotal :: heap where
  "ex_heap_taxTotal =
     ex_heap\<lparr> data_at := (\<lambda>_. [(''invoiceNumber'', JStr ''2024-001''),
                               (''date'', JStr ''2024-01-15''),
                               (''amount'', JNum 1190), (''vatAmount'', JNum 0),
                               (''vatIncluded'', JBool False), (''poNumber'', JStr ''PO-1''),
                               (''taxTotal'', JInf True)]) \<rparr>"

definition ex_store_same_serialisation :: store where
  "ex_store_same_serialisation =
     [\<lparr> mem_id = ''m6'', mem_vendor = ''Supplier GmbH'', confidence = 0.9, usageCount = 0,
        createdAt = 0, lastUsedAt = None, lastUpdatedAt = 0, isActive = True,
        variant = VendorMemory ''Supplier GmbH''
                    \<lparr> act_type = field_mapping, sourceField = Some ''taxTotal'',
                      targetField = ''vatAmount'', act_value = None, strategy = None \<rparr>
                    ''tax_total_mapping'' \<rparr>,
      \<lparr> mem_id = ''m7'', mem_vendor = ''Supplier GmbH'', confidence = 0.9, usageCount = 0,
        createdAt = 0, lastUsedAt = None, lastUpdatedAt = 0, isActive = True,
        variant = CorrectionMemory ''vatAmount'' ''human_correction'' JNull
                    ''Human correction'' 0 0 \<rparr>]"

definition ex_store_conflict :: store where
  "ex_store_conflict =
     [ex_correction_memory 0.8,
      \<lparr> mem_id = ''m3'', mem_vendor = ''Supplier GmbH'', confidence = 0.7, usageCount = 0,
        createdAt = 0, lastUsedAt = None, lastUpdatedAt = 0, isActive = True,
        variant = CorrectionMemory ''currency'' ''human_correction'' (JStr ''USD'')
                    ''Human correction'' 0 0 \<rparr>]"

definition ex_same_value_memory :: Memory where
  "ex_same_value_memory =
     \<lparr> mem_id = ''m4'', mem_vendor = ''Supplier GmbH'', confidence = 0.8, usageCount = 0,
       createdAt = 0, lastUsedAt = None, lastUpdatedAt = 0, isActive = True,
       variant = CorrectionMemory ''vatAmount'' ''human_correction'' (JNum 0)
                   ''Human correction'' 0 0 \<rparr>"

definition ex_leistungsdatum_memory :: Memory where
  "ex_leistungsdatum_memory =
     \<lparr> mem_id = ''m5'', mem_vendor = ''Supplier GmbH'', confidence = 0.72, usageCount = 0,
       createdAt = 0, lastUsedAt = None, lastUpdatedAt = 0, isActive = True,
       variant = VendorMemory ''Leistungsdatum''
                   \<lparr> act_type = field_mapping, sourceField = None,
                     targetField = ''serviceDate'', act_value = None,
                     strategy = Some ''extract_from_text'' \<rparr>
                   ''leistungsdatum_mapping'' \<rparr>"

section \<open>Properties of the decision stage\<close>

text \<open>
  C5.  Whenever the overall confidence is strictly below 0.4, the decision function asks
  for human review, whatever the corrections are (also when each of them has confidence
  0.7 or more); the rule that fires is the low-confidence one.
\<close>

theorem makeDecision_low_confidence_escalates:
  "conf < 0.4 \<Longrightarrow>
     makeDecision conf corrections = (True, LowConfidence_Escalate conf)"
  by (simp add: makeDecision_def thresholds_def)

theorem makeDecision_low_confidence_escalates_witness:
  "(0.39::real) < 0.4 \<and>
   makeDecision 0.39
     [\<lparr> field = ''currency'', originalValue = None, proposedValue = JStr ''EUR'',
        corr_confidence = 0.9, memorySource = ''m1'',
        corr_reasoning = CorrectionMemoryReasoning ''Human correction'' 0 \<rparr>]
     = (True, LowConfidence_Escalate 0.39)"
  using makeDecision_low_confidence_escalates [of "0.39"] by simp

section \<open>Properties of the store and the manager\<close>

lemma find_SomeD: "find P xs = Some x \<Longrightarrow> x \<in> set xs \<and> P x"
  by (induction xs) (auto split: if_splits)

lemma fsub_le: "0 \<le> y \<Longrightarrow> fsub fs x y \<le> x"
  by transfer simp

lemma fsub_exact [simp]: "fsub exact_sub x y = x - y"
  by transfer simp

lemma set_queryMemories:
  "set (queryMemories q db) \<subseteq> {r \<in> set db. row_matches q r}"
  by (auto simp add: queryMemories_def Let_def dest: in_set_takeD)

lemma find_queryMemories:
  assumes "find (\<lambda>m. mem_id m = i) (queryMemories q db) = Some memory"
  shows "memory \<in> set db" and "mem_id memory = i" and "row_matches q memory"
  using find_SomeD [OF assms] set_queryMemories [of q db] by auto

lemma stored_row_simps [simp]:
  "mem_id (stored_row m) = mem_id m"
  "mem_vendor (stored_row m) = mem_vendor m"
  "confidence (stored_row m) = confidence m"
  "usageCount (stored_row m) = usageCount m"
  "isActive (stored_row m) = isActive m"
  "stored_row (m\<lparr> isActive := b \<rparr>) = (stored_row m)\<lparr> isActive := b \<rparr>"
  by (simp_all add: stored_row_def)

lemma memory_type_stored_row [simp]: "memory_type (stored_row m) = memory_type m"
  by (simp add: stored_row_def stored_variant_def memory_type_def split: memory_variant.splits)

lemma confidence_bump_approval [simp]: "confidence (bump_approval m) = confidence m"
  by (simp add: bump_approval_def split: memory_variant.splits)

lemma confidence_bump_rejection [simp]: "confidence (bump_rejection m) = confidence m"
  by (simp add: bump_rejection_def split: memory_variant.splits)

subsection \<open>The range of stored confidences\<close>

lemma in_rangeD:
  "confidence_in_range db \<Longrightarrow> m \<in> set db \<Longrightarrow>
     MIN_CONFIDENCE \<le> confidence m \<and> confidence m \<le> MAX_CONFIDENCE"
  by (simp add: confidence_in_range_def list_all_iff)

lemma in_range_saveMemory:
  "confidence_in_range db \<Longrightarrow> MIN_CONFIDENCE \<le> confidence m \<Longrightarrow> confidence m \<le> MAX_CONFIDENCE
     \<Longrightarrow> confidence_in_range (saveMemory m db)"
  by (simp add: confidence_in_range_def saveMemory_def list_all_iff)

lemma in_range_updateMemoryConfidence:
  "confidence_in_range db \<Longrightarrow> MIN_CONFIDENCE \<le> c \<Longrightarrow> c \<le> MAX_CONFIDENCE
     \<Longrightarrow> confidence_in_range (updateMemoryConfidence i c now db)"
  by (auto simp add: confidence_in_range_def updateMemoryConfidence_def list_all_iff)

lemma in_range_updateMemoryUsage:
  "confidence_in_range db \<Longrightarrow> confidence_in_range (updateMemoryUsage i now db)"
  by (auto simp add: confidence_in_range_def updateMemoryUsage_def list_all_iff)

lemma in_range_create:
  assumes "confidence_in_range db" and "given_at_least MIN_CONFIDENCE ic"
      and "MIN_CONFIDENCE \<le> d"
      and "confidence m = min (case ic of None \<Rightarrow> d | Some c \<Rightarrow> c) MAX_CONFIDENCE"
  shows "confidence_in_range (saveMemory m db)"
proof -
  have "MIN_CONFIDENCE \<le> confidence m" "confidence m \<le> MAX_CONFIDENCE"
    using assms(2,3,4)
    by (auto simp add: given_at_least_def MIN_CONFIDENCE_def MAX_CONFIDENCE_def
             split: option.splits)
  with assms(1) show ?thesis by (simp add: in_range_saveMemory)
qed

lemma in_range_reinforceMemory:
  assumes "confidence_in_range db" and "given_at_least 0 strength"
  shows "confidence_in_range (reinforceMemory i strength now db)"
proof (cases "find (\<lambda>m. mem_id m = i) (queryMemories empty_query db)")
  case None
  then show ?thesis using assms by (simp add: reinforceMemory_def)
next
  case (Some memory)
  then have mem: "memory \<in> set db" by (rule find_queryMemories)
  with assms have r: "MIN_CONFIDENCE \<le> confidence memory" "confidence memory \<le> MAX_CONFIDENCE"
    using in_rangeD by blast+
  define inc where
    "inc = min (case strength of None \<Rightarrow> 0.1 | Some x \<Rightarrow> x) MAX_CONFIDENCE_INCREASE"
  have "0 \<le> inc" using assms(2)
    by (simp add: inc_def given_at_least_def MAX_CONFIDENCE_INCREASE_def split: option.splits)
  with r have n: "MIN_CONFIDENCE \<le> min (confidence memory + inc) MAX_CONFIDENCE"
       "min (confidence memory + inc) MAX_CONFIDENCE \<le> MAX_CONFIDENCE"
    by (auto simp add: MIN_CONFIDENCE_def MAX_CONFIDENCE_def min_def)
  define nc where "nc = min (confidence memory + inc) MAX_CONFIDENCE"
  define db2 where "db2 = updateMemoryUsage i now (updateMemoryConfidence i nc now db)"
  have w: "reinforceMemory i strength now db =
             (if memory_type memory = correction then saveMemory (bump_approval memory) db2
              else db2)"
    using Some by (simp add: reinforceMemory_def Let_def nc_def inc_def db2_def)
  have "confidence_in_range db2"
    unfolding db2_def nc_def using assms(1) n
    by (intro in_range_updateMemoryUsage in_range_updateMemoryConfidence)
  then show ?thesis
    using r by (simp add: w in_range_saveMemory)
qed

lemma in_range_weakenMemory:
  assumes "confidence_in_range db" and "given_at_least 0 strength"
  shows "confidence_in_range (weakenMemory fs i strength now db)"
proof (cases "find (\<lambda>m. mem_id m = i) (queryMemories empty_query db)")
  case None
  then show ?thesis using assms by (simp add: weakenMemory_def)
next
  case (Some memory)
  then have mem: "memory \<in> set db" by (rule find_queryMemories)
  with assms have r: "MIN_CONFIDENCE \<le> confidence memory" "confidence memory \<le> MAX_CONFIDENCE"
    using in_rangeD by blast+
  define dec where "dec = min (case strength of None \<Rightarrow> 0.2 | Some x \<Rightarrow> x) (0.3::real)"
  have "0 \<le> dec" using assms(2)
    by (simp add: dec_def given_at_least_def split: option.splits)
  then have "fsub fs (confidence memory) dec \<le> confidence memory"
    by (rule fsub_le)
  with r have n: "MIN_CONFIDENCE \<le> max (fsub fs (confidence memory) dec) MIN_CONFIDENCE"
       "max (fsub fs (confidence memory) dec) MIN_CONFIDENCE \<le> MAX_CONFIDENCE"
    by (auto simp add: MIN_CONFIDENCE_def MAX_CONFIDENCE_def max_def)
  define nc where "nc = max (fsub fs (confidence memory) dec) MIN_CONFIDENCE"
  define db1 where "db1 = updateMemoryConfidence i nc now db"
  define memory1 where
    "memory1 = (if memory_type memory = correction then bump_rejection memory else memory)"
  define db2 where
    "db2 = (if memory_type memory = correction then saveMemory memory1 db1 else db1)"
  have w: "weakenMemory fs i strength now db =
             (if nc \<le> MIN_CONFIDENCE then saveMemory (memory1\<lparr> isActive := False \<rparr>) db2
              else db2)"
    using Some by (simp add: weakenMemory_def Let_def nc_def dec_def db1_def memory1_def db2_def)
  have c1: "confidence memory1 = confidence memory"
    by (simp add: memory1_def)
  have "confidence_in_range db1"
    unfolding db1_def nc_def using assms(1) n by (intro in_range_updateMemoryConfidence)
  then have "confidence_in_range db2"
    using r c1 by (simp add: db2_def in_range_saveMemory)
  then show ?thesis
    using r c1 by (simp add: w in_range_saveMemory)
qed

lemma decayedConfidence_range:
  assumes "decayedConfidence now m = Some c"
      and "MIN_CONFIDENCE \<le> confidence m" and "confidence m \<le> MAX_CONFIDENCE"
  shows "MIN_CONFIDENCE \<le> c \<and> c \<le> MAX_CONFIDENCE"
proof -
  obtain n where c: "c = max (confidence m * CONFIDENCE_DECAY_RATE ^ n) MIN_CONFIDENCE"
    using assms(1) by (auto simp add: decayedConfidence_def Let_def split: if_splits)
  have "CONFIDENCE_DECAY_RATE ^ n \<le> 1"
    by (rule power_le_one) (simp_all add: CONFIDENCE_DECAY_RATE_def)
  moreover have "0 \<le> confidence m" using assms(2) by (simp add: MIN_CONFIDENCE_def)
  ultimately have "confidence m * CONFIDENCE_DECAY_RATE ^ n \<le> confidence m"
    by (simp add: mult_left_le)
  with assms(3) show ?thesis
    by (simp add: c MIN_CONFIDENCE_def MAX_CONFIDENCE_def)
qed

lemma in_range_applyDecay:
  assumes "list_all (\<lambda>r. MIN_CONFIDENCE \<le> confidence r \<and> confidence r \<le> MAX_CONFIDENCE)
             memories"
      and "confidence_in_range db"
  shows "confidence_in_range (applyDecayToUnusedMemories now memories db)"
  using assms
proof (induction memories arbitrary: db)
  case Nil
  then show ?case by simp
next
  case (Cons m ms)
  show ?case
  proof (cases "decayedConfidence now m")
    case None
    then show ?thesis using Cons by simp
  next
    case (Some c)
    then have "MIN_CONFIDENCE \<le> c \<and> c \<le> MAX_CONFIDENCE"
      using Cons.prems(1) by (intro decayedConfidence_range) auto
    then have "confidence_in_range (updateMemoryConfidence (mem_id m) c now db)"
      using Cons.prems(2) by (simp add: in_range_updateMemoryConfidence)
    then show ?thesis using Cons Some by simp
  qed
qed

lemma in_range_recall:
  assumes "confidence_in_range db"
  shows "confidence_in_range (snd (mgr_recallMemories v q now db))"
proof -
  have "list_all (\<lambda>r. MIN_CONFIDENCE \<le> confidence r \<and> confidence r \<le> MAX_CONFIDENCE)
          (queryMemories (fullQuery v q) db)"
    using assms set_queryMemories [of "fullQuery v q" db]
    by (auto simp add: list_all_iff confidence_in_range_def)
  then show ?thesis using assms
    by (simp add: mgr_recallMemories_def Let_def in_range_applyDecay)
qed

text \<open>
  C1 (as amended).  Let every stored confidence lie in [0.1, 0.95].  Then a create
  operation stores \<open>min initialConfidence 0.95\<close> and keeps every stored confidence
  in the interval when the initial confidence is left out or is at least 0.1; a
  reinforcement or a weakening whose strength is left out or is not negative keeps it,
  the weakening with any floating-point subtraction; and the decay applied during a
  recall keeps it.
\<close>

theorem confidence_range_preserved:
  assumes "confidence_in_range db"
  shows "(given_at_least MIN_CONFIDENCE ic \<longrightarrow>
            confidence (fst (createVendorMemory newId v t a p ic now db)) =
              min (case ic of None \<Rightarrow> 0.5 | Some c \<Rightarrow> c) 0.95
            \<and> confidence_in_range (snd (createVendorMemory newId v t a p ic now db))
            \<and> confidence (fst (createCorrectionMemory newId v f op cv cr ic now db)) =
              min (case ic of None \<Rightarrow> 0.4 | Some c \<Rightarrow> c) 0.95
            \<and> confidence_in_range (snd (createCorrectionMemory newId v f op cv cr ic now db))
            \<and> confidence (fst (createResolutionMemory newId v sc oc sa hf ic now db)) =
              min (case ic of None \<Rightarrow> 0.6 | Some c \<Rightarrow> c) 0.95
            \<and> confidence_in_range (snd (createResolutionMemory newId v sc oc sa hf ic now db)))
       \<and> (given_at_least 0 strength \<longrightarrow>
            confidence_in_range (reinforceMemory i strength now db)
            \<and> confidence_in_range (weakenMemory fs i strength now db))
       \<and> confidence_in_range (snd (mgr_recallMemories iv q now db))"
proof -
  have "confidence_in_range (snd (createVendorMemory newId v t a p ic now db))"
    if "given_at_least MIN_CONFIDENCE ic"
    unfolding createVendorMemory_def Let_def snd_conv
    using assms that by (rule in_range_create [where d = "0.5"]) (simp_all add: MIN_CONFIDENCE_def)
  moreover have "confidence_in_range (snd (createCorrectionMemory newId v f op cv cr ic now db))"
    if "given_at_least MIN_CONFIDENCE ic"
    unfolding createCorrectionMemory_def Let_def snd_conv
    using assms that by (rule in_range_create [where d = "0.4"]) (simp_all add: MIN_CONFIDENCE_def)
  moreover have "confidence_in_range (snd (createResolutionMemory newId v sc oc sa hf ic now db))"
    if "given_at_least MIN_CONFIDENCE ic"
    unfolding createResolutionMemory_def Let_def snd_conv
    using assms that by (rule in_range_create [where d = "0.6"]) (simp_all add: MIN_CONFIDENCE_def)
  moreover have "confidence (fst (createVendorMemory newId v t a p ic now db)) =
                   min (case ic of None \<Rightarrow> 0.5 | Some c \<Rightarrow> c) 0.95"
    by (simp add: createVendorMemory_def Let_def MAX_CONFIDENCE_def)
  moreover have "confidence (fst (createCorrectionMemory newId v f op cv cr ic now db)) =
                   min (case ic of None \<Rightarrow> 0.4 | Some c \<Rightarrow> c) 0.95"
    by (simp add: createCorrectionMemory_def Let_def MAX_CONFIDENCE_def)
  moreover have "confidence (fst (createResolutionMemory newId v sc oc sa hf ic now db)) =
                   min (case ic of None \<Rightarrow> 0.6 | Some c \<Rightarrow> c) 0.95"
    by (simp add: createResolutionMemory_def Let_def MAX_CONFIDENCE_def)
  ultimately show ?thesis
    using assms by (simp add: in_range_reinforceMemory in_range_weakenMemory in_range_recall)
qed

subsection \<open>Logical deletion\<close>

lemma deactivated_saveMemory_same:
  "mem_id m = i \<Longrightarrow> \<not> isActive m \<Longrightarrow> deactivated i (saveMemory m db)"
  by (auto simp add: deactivated_def saveMemory_def list_all_iff list_ex_iff)

lemma deactivated_saveMemory_other:
  "deactivated i db \<Longrightarrow> mem_id m \<noteq> i \<Longrightarrow> deactivated i (saveMemory m db)"
  by (auto simp add: deactivated_def saveMemory_def list_all_iff list_ex_iff)

lemma deactivated_iff:
  "deactivated i db \<longleftrightarrow>
     i \<in> set (map mem_id db) \<and> (\<forall>r\<in>set db. mem_id r = i \<longrightarrow> \<not> isActive r)"
  by (auto simp add: deactivated_def list_all_iff list_ex_iff)

lemma ids_updateMemoryConfidence:
  "map mem_id (updateMemoryConfidence j c now db) = map mem_id db"
  by (induction db) (simp_all add: updateMemoryConfidence_def)

lemma ids_updateMemoryUsage:
  "map mem_id (updateMemoryUsage j now db) = map mem_id db"
  by (induction db) (simp_all add: updateMemoryUsage_def)

lemma deactivated_updateMemoryConfidence:
  "deactivated i db \<Longrightarrow> deactivated i (updateMemoryConfidence j c now db)"
  unfolding deactivated_iff ids_updateMemoryConfidence
  by (auto simp add: updateMemoryConfidence_def)

lemma deactivated_updateMemoryUsage:
  "deactivated i db \<Longrightarrow> deactivated i (updateMemoryUsage j now db)"
  unfolding deactivated_iff ids_updateMemoryUsage
  by (auto simp add: updateMemoryUsage_def)

lemma deactivated_not_queried:
  assumes "deactivated i db" and "r \<in> set (queryMemories q db)"
  shows "mem_id r \<noteq> i"
proof -
  from assms(2) have "r \<in> set db" "isActive r"
    using set_queryMemories [of q db] by (auto simp add: row_matches_def)
  with assms(1) show ?thesis by (auto simp add: deactivated_def list_all_iff)
qed

lemma deactivated_find_None:
  "deactivated i db \<Longrightarrow> find (\<lambda>m. mem_id m = i) (queryMemories q db) = None"
  by (auto simp add: find_None_iff dest: deactivated_not_queried)

lemma mem_id_bump [simp]:
  "mem_id (bump_approval m) = mem_id m" "mem_id (bump_rejection m) = mem_id m"
  by (simp_all add: bump_approval_def bump_rejection_def split: memory_variant.splits)

lemma deactivated_reinforceMemory:
  assumes "deactivated i db"
  shows "deactivated i (reinforceMemory j strength now db)"
proof (cases "find (\<lambda>m. mem_id m = j) (queryMemories empty_query db)")
  case None
  then show ?thesis using assms by (simp add: reinforceMemory_def)
next
  case (Some memory)
  then have "mem_id memory = j" "memory \<in> set (queryMemories empty_query db)"
    using find_SomeD [OF Some] by auto
  then have "mem_id memory \<noteq> i" "mem_id memory = j"
    using assms deactivated_not_queried by auto
  then show ?thesis using Some assms
    by (simp add: reinforceMemory_def Let_def deactivated_saveMemory_other
          deactivated_updateMemoryConfidence deactivated_updateMemoryUsage)
qed

lemma deactivated_weakenMemory:
  assumes "deactivated i db"
  shows "deactivated i (weakenMemory fs j strength now db)"
proof (cases "find (\<lambda>m. mem_id m = j) (queryMemories empty_query db)")
  case None
  then show ?thesis using assms by (simp add: weakenMemory_def)
next
  case (Some memory)
  then have "mem_id memory = j" "memory \<in> set (queryMemories empty_query db)"
    using find_SomeD [OF Some] by auto
  then have "mem_id memory \<noteq> i" "mem_id memory = j"
    using assms deactivated_not_queried by auto
  then show ?thesis using Some assms
    by (simp add: weakenMemory_def Let_def deactivated_saveMemory_other
          deactivated_updateMemoryConfidence)
qed

lemma deactivated_applyDecay:
  "deactivated i db \<Longrightarrow> deactivated i (applyDecayToUnusedMemories now memories db)"
  by (induction memories arbitrary: db)
     (auto simp add: deactivated_updateMemoryConfidence split: option.splits)

lemma deactivated_mgr_recall:
  "deactivated i db \<Longrightarrow> deactivated i (snd (mgr_recallMemories v q now db))"
  by (simp add: mgr_recallMemories_def Let_def deactivated_applyDecay)

lemma deactivated_recall_fields:
  "deactivated i db \<Longrightarrow> deactivated i (snd (recall_fields invoice fs now db))"
  by (induction fs arbitrary: db) (simp_all add: split_beta Let_def deactivated_mgr_recall)

lemma deactivated_proc_recall:
  "deactivated i db \<Longrightarrow> deactivated i (snd (proc_recallMemories invoice now db))"
  by (simp add: proc_recallMemories_def split_beta Let_def deactivated_mgr_recall
        deactivated_recall_fields)

lemma deactivated_applyMemories_loop:
  "deactivated i (as_db st) \<Longrightarrow>
     deactivated i (as_db (applyMemories_loop rt invoice now memories st))"
  by (induction memories arbitrary: st)
     (auto simp add: deactivated_reinforceMemory split: option.splits)

lemma deactivated_processInvoice:
  "deactivated i db \<Longrightarrow> deactivated i (snd (snd (processInvoice rt h a now db)))"
  by (simp add: processInvoice_def applyMemories_def split_beta Let_def
        deactivated_applyMemories_loop deactivated_proc_recall)

lemma deactivated_run_op:
  assumes "deactivated i db" and "created_id x \<noteq> Some i"
  shows "deactivated i (run_op x db)"
  using assms
  by (cases x)
     (simp_all add: createVendorMemory_def createCorrectionMemory_def createResolutionMemory_def
        Let_def deactivated_saveMemory_other deactivated_reinforceMemory
        deactivated_weakenMemory mgr_recallMemories_def deactivated_applyDecay
        deactivated_processInvoice)

lemma deactivated_run_ops:
  "deactivated i db \<Longrightarrow> list_all (\<lambda>x. created_id x \<noteq> Some i) xs \<Longrightarrow> deactivated i (run_ops xs db)"
  by (induction xs arbitrary: db) (simp_all add: deactivated_run_op)

lemma deactivated_weaken_to_floor:
  assumes "find (\<lambda>m. mem_id m = i) (queryMemories empty_query db) = Some memory"
      and "max (fsub fs (confidence memory)
                  (min (case strength of None \<Rightarrow> 0.2 | Some x \<Rightarrow> x) 0.3))
               MIN_CONFIDENCE \<le> MIN_CONFIDENCE"
  shows "deactivated i (weakenMemory fs i strength now db)"
proof -
  have "mem_id memory = i" using find_SomeD [OF assms(1)] by simp
  then show ?thesis using assms
    by (simp add: weakenMemory_def Let_def deactivated_saveMemory_same)
qed

lemma deactivated_not_recalled:
  "deactivated i db \<Longrightarrow> r \<in> set (fst (mgr_recallMemories v q now db)) \<Longrightarrow> mem_id r \<noteq> i"
  by (auto simp add: mgr_recallMemories_def Let_def dest: deactivated_not_queried)

text \<open>
  C4.  When \<open>weakenMemory\<close> finds the memory among the active ones and the new
  confidence it computes, \<open>Math.max(memory.confidence - decrease, 0.1)\<close> with the
  subtraction of the floating-point arithmetic, is at the floor 0.1, the memory is
  inactive afterwards and its row is still in the store; this stays so after any further
  create (with another identifier), reinforce, weaken and recall operations and any runs
  of \<open>processInvoice\<close>, and no later recall, for any invoice vendor and any filter,
  returns it.  The test is the one the code makes, on the rounded difference: a memory
  of confidence 0.4 weakened by 0.3 has the new confidence 0.10000000000000003 in binary
  floating point, is above the floor, and stays active (lemma
  \<open>weakenMemory_rounded_above_floor\<close> below).
\<close>

theorem weakened_to_floor_is_excluded:
  assumes "find (\<lambda>m. mem_id m = i) (queryMemories empty_query db) = Some memory"
      and "max (fsub fs (confidence memory)
                  (min (case strength of None \<Rightarrow> 0.2 | Some x \<Rightarrow> x) 0.3))
               MIN_CONFIDENCE \<le> MIN_CONFIDENCE"
      and "list_all (\<lambda>x. created_id x \<noteq> Some i) ops"
  shows "deactivated i (weakenMemory fs i strength now db)
       \<and> deactivated i (run_ops ops (weakenMemory fs i strength now db))
       \<and> i \<notin> mem_id ` set (fst (mgr_recallMemories v q now'
                                    (run_ops ops (weakenMemory fs i strength now db))))"
proof -
  let ?db' = "weakenMemory fs i strength now db"
  have d1: "deactivated i ?db'"
    using assms(1,2) by (rule deactivated_weaken_to_floor)
  then have d2: "deactivated i (run_ops ops ?db')"
    using assms(3) by (rule deactivated_run_ops)
  then have "i \<notin> mem_id ` set (fst (mgr_recallMemories v q now' (run_ops ops ?db')))"
    using deactivated_not_recalled by blast
  with d1 d2 show ?thesis by simp
qed

theorem weakened_to_floor_is_excluded_witness:
  "find (\<lambda>m. mem_id m = ''m1'') (queryMemories empty_query [ex_vendor_memory 0.25])
     = Some (ex_vendor_memory 0.25)
   \<and> max (fsub exact_sub (confidence (ex_vendor_memory 0.25))
             (min (case None of None \<Rightarrow> 0.2 | Some x \<Rightarrow> x) 0.3))
          MIN_CONFIDENCE \<le> MIN_CONFIDENCE
   \<and> list_all (\<lambda>x. created_id x \<noteq> Some ''m1'')
        [Reinforce ''m1'' None 2, ProcessInvoice ex_runtime ex_heap 0 2,
         Weaken exact_sub ''m1'' None 2,
         CreateCorrection ''m3'' ''Supplier GmbH'' ''currency'' ''human_correction''
           (JStr ''EUR'') ''Human correction'' (Some 0.7) 3]
   \<and> deactivated ''m1'' (weakenMemory exact_sub ''m1'' None 1 [ex_vendor_memory 0.25])
   \<and> deactivated ''m1''
        (run_ops
           [Reinforce ''m1'' None 2, ProcessInvoice ex_runtime ex_heap 0 2,
            Weaken exact_sub ''m1'' None 2,
            CreateCorrection ''m3'' ''Supplier GmbH'' ''currency'' ''human_correction''
              (JStr ''EUR'') ''Human correction'' (Some 0.7) 3]
           (weakenMemory exact_sub ''m1'' None 1 [ex_vendor_memory 0.25]))
   \<and> ''m1'' \<notin> mem_id ` set (fst (mgr_recallMemories ''Supplier GmbH'' empty_query 4
        (run_ops
           [Reinforce ''m1'' None 2, ProcessInvoice ex_runtime ex_heap 0 2,
            Weaken exact_sub ''m1'' None 2,
            CreateCorrection ''m3'' ''Supplier GmbH'' ''currency'' ''human_correction''
              (JStr ''EUR'') ''Human correction'' (Some 0.7) 3]
           (weakenMemory exact_sub ''m1'' None 1 [ex_vendor_memory 0.25]))))"
proof -
  have h1: "find (\<lambda>m. mem_id m = ''m1'') (queryMemories empty_query [ex_vendor_memory 0.25])
              = Some (ex_vendor_memory 0.25)"
    by code_simp
  have h2: "max (fsub exact_sub (confidence (ex_vendor_memory 0.25))
                   (min (case None of None \<Rightarrow> 0.2 | Some x \<Rightarrow> x) 0.3))
                MIN_CONFIDENCE \<le> MIN_CONFIDENCE"
    by (simp add: ex_vendor_memory_def MIN_CONFIDENCE_def)
  have h3: "list_all (\<lambda>x. created_id x \<noteq> Some ''m1'')
              [Reinforce ''m1'' None 2, ProcessInvoice ex_runtime ex_heap 0 2,
               Weaken exact_sub ''m1'' None 2,
               CreateCorrection ''m3'' ''Supplier GmbH'' ''currency'' ''human_correction''
                 (JStr ''EUR'') ''Human correction'' (Some 0.7) 3]"
    by simp
  from weakened_to_floor_is_excluded [OF h1 h2 h3, of 1 "''Supplier GmbH''" empty_query 4]
    h1 h2 h3
  show ?thesis by blast
qed

text \<open>
  The floor test follows the subtraction.  Where the rounded difference of 0.4 and 0.3
  is above the floor, as it is in binary floating point, the weakened memory stays
  active, with the rounded difference as its confidence; where the difference is exact,
  the same memory is made inactive.
\<close>

lemma weakenMemory_rounded_above_floor:
  assumes "MIN_CONFIDENCE < fsub fs 0.4 0.3"
  shows "weakenMemory fs ''m1'' (Some 0.3) now [ex_vendor_memory 0.4]
           = [(ex_vendor_memory 0.4)\<lparr> confidence := fsub fs 0.4 0.3, lastUpdatedAt := now \<rparr>]"
proof -
  have f: "find (\<lambda>m. mem_id m = ''m1'') (queryMemories empty_query [ex_vendor_memory 0.4])
             = Some (ex_vendor_memory 0.4)"
    by code_simp
  show ?thesis unfolding weakenMemory_def f using assms
    by (simp add: ex_vendor_memory_def memory_type_def Let_def updateMemoryConfidence_def
          max_def)
qed

lemma weakenMemory_rounded_example:
  "weakenMemory rounded_sub_example ''m1'' (Some 0.3) 1 [ex_vendor_memory 0.4]
     = [(ex_vendor_memory 0.4)\<lparr> confidence := 0.10000000000000003, lastUpdatedAt := 1 \<rparr>]
   \<and> \<not> deactivated ''m1''
         (weakenMemory rounded_sub_example ''m1'' (Some 0.3) 1 [ex_vendor_memory 0.4])
   \<and> map mem_id
        (fst (mgr_recallMemories ''Supplier GmbH'' (empty_query\<lparr> minConfidence := Some 0.1 \<rparr>) 2
                (weakenMemory rounded_sub_example ''m1'' (Some 0.3) 1 [ex_vendor_memory 0.4])))
     = [''m1'']"
  by code_simp

lemma weakenMemory_exact_at_floor:
  "deactivated ''m1'' (weakenMemory exact_sub ''m1'' (Some 0.3) now [ex_vendor_memory 0.4])"
proof -
  have f: "find (\<lambda>m. mem_id m = ''m1'') (queryMemories empty_query [ex_vendor_memory 0.4])
             = Some (ex_vendor_memory 0.4)"
    by code_simp
  have c: "max (fsub exact_sub (confidence (ex_vendor_memory 0.4))
                  (min (case Some 0.3 of None \<Rightarrow> 0.2 | Some x \<Rightarrow> x) 0.3))
               MIN_CONFIDENCE \<le> MIN_CONFIDENCE"
    by (simp add: ex_vendor_memory_def MIN_CONFIDENCE_def)
  show ?thesis using f c by (rule deactivated_weaken_to_floor)
qed

subsection \<open>What a recall returns, and what a reinforcement stores\<close>

lemma recall_returns_stored_rows:
  "set (fst (mgr_recallMemories v q now db)) \<subseteq> set db"
  using set_queryMemories [of "fullQuery v q" db]
  by (auto simp add: mgr_recallMemories_def Let_def)

lemma reinforceMemory_correction:
  assumes "find (\<lambda>m. mem_id m = i) (queryMemories empty_query db) = Some memory"
      and "memory_type memory = correction"
  shows "reinforceMemory i strength now db =
           filter (\<lambda>r. mem_id r \<noteq> i) db @ [stored_row (bump_approval memory)]"
proof -
  have i: "mem_id memory = i" using find_SomeD [OF assms(1)] by simp
  have "filter (\<lambda>r. mem_id r \<noteq> i) (updateMemoryUsage i now (updateMemoryConfidence i c now db))
          = filter (\<lambda>r. mem_id r \<noteq> i) db" for c
    by (induction db) (simp_all add: updateMemoryUsage_def updateMemoryConfidence_def)
  then show ?thesis using assms i
    by (simp add: reinforceMemory_def Let_def saveMemory_def bump_approval_def
          split: memory_variant.splits)
qed

lemma reinforceMemory_other:
  assumes "find (\<lambda>m. mem_id m = i) (queryMemories empty_query db) = Some memory"
      and "memory_type memory \<noteq> correction"
  shows "reinforceMemory i strength now db =
           map (\<lambda>r. if mem_id r = i
                    then r\<lparr> confidence :=
                              min (confidence memory
                                   + min (case strength of None \<Rightarrow> 0.1 | Some x \<Rightarrow> x) 0.1) 0.95,
                            usageCount := usageCount r + 1, lastUsedAt := Some now,
                            lastUpdatedAt := now \<rparr>
                    else r) db"
  using assms
  by (simp add: reinforceMemory_def Let_def updateMemoryUsage_def updateMemoryConfidence_def
        MAX_CONFIDENCE_def MAX_CONFIDENCE_INCREASE_def comp_def if_distrib cong: if_cong)

text \<open>
  When a weakening reaches the floor, the row that is saved last is that of the fetched
  object, made inactive: it has the confidence it was fetched with.
\<close>

lemma weakenMemory_to_floor_row:
  assumes "find (\<lambda>m. mem_id m = i) (queryMemories empty_query db) = Some memory"
      and "max (fsub fs (confidence memory)
                  (min (case strength of None \<Rightarrow> 0.2 | Some x \<Rightarrow> x) 0.3))
               MIN_CONFIDENCE \<le> MIN_CONFIDENCE"
  shows "weakenMemory fs i strength now db =
           filter (\<lambda>r. mem_id r \<noteq> i) db
           @ [stored_row
                ((if memory_type memory = correction then bump_rejection memory else memory)
                   \<lparr> isActive := False \<rparr>)]"
proof -
  have i: "mem_id memory = i" using find_SomeD [OF assms(1)] by simp
  have f: "filter (\<lambda>r. mem_id r \<noteq> i) (updateMemoryConfidence i c now db)
             = filter (\<lambda>r. mem_id r \<noteq> i) db" for c
    by (induction db) (simp_all add: updateMemoryConfidence_def)
  show ?thesis using assms i
    by (simp add: weakenMemory_def Let_def saveMemory_def f)
qed

text \<open>
  C2, at a concrete store.  A vendor memory with confidence 0.31, created on day 0 and
  never used, is recalled on day 8 with the default minimum confidence 0.3.  Its decayed
  confidence 0.31 * 0.95 = 0.2945 is written to the store, and the recall returns the
  memory all the same, carrying 0.31.
\<close>

theorem recall_returns_undecayed_memory:
  "mgr_recallMemories ''Supplier GmbH'' empty_query (8 * ms_per_day) [ex_vendor_memory 0.31]
     = ([ex_vendor_memory 0.31],
        [(ex_vendor_memory 0.31)\<lparr> confidence := 0.2945, lastUpdatedAt := 8 * ms_per_day \<rparr>])"
  by code_simp

text \<open>
  C3, at a concrete store.  Reinforcing a correction memory of confidence 0.5 and usage
  count 0 with strength 0.1 leaves the stored confidence at 0.5, the usage count at 0 and
  the last-used timestamp empty; only the approval count changes.
\<close>

theorem reinforce_correction_memory_keeps_confidence:
  "reinforceMemory ''m2'' (Some 0.1) 5 [ex_correction_memory 0.5]
     = [(ex_correction_memory 0.5)
          \<lparr> variant := CorrectionMemory ''currency'' ''human_correction'' (JStr ''EUR'')
                         ''Human correction'' 1 0 \<rparr>]"
  by code_simp

text \<open>
  C1 as stated fails: a create operation with initial confidence 0.05 stores 0.05, a
  reinforcement with strength -1 stores -0.1, and a weakening with strength -1 stores
  1.9 (the difference taken exactly; its rounding is far smaller than the distance to
  the interval), each on a store whose confidences were in the interval.
\<close>

theorem confidence_range_counterexample:
  "confidence_in_range [ex_vendor_memory 0.9]
   \<and> \<not> confidence_in_range
         (snd (createCorrectionMemory ''m3'' ''Supplier GmbH'' ''currency'' ''human_correction''
                 (JStr ''EUR'') ''Human correction'' (Some 0.05) 0 [ex_vendor_memory 0.9]))
   \<and> \<not> confidence_in_range (reinforceMemory ''m1'' (Some (- 1)) 0 [ex_vendor_memory 0.9])
   \<and> \<not> confidence_in_range
         (weakenMemory exact_sub ''m1'' (Some (- 1)) 0 [ex_vendor_memory 0.9])"
  by code_simp

theorem confidence_range_preserved_witness:
  "confidence_in_range [ex_vendor_memory 0.9]
   \<and> given_at_least MIN_CONFIDENCE (Some 0.7) \<and> given_at_least 0 (Some 0.02)
   \<and> confidence_in_range
         (snd (createCorrectionMemory ''m3'' ''Supplier GmbH'' ''currency'' ''human_correction''
                 (JStr ''EUR'') ''Human correction'' (Some 0.7) 0 [ex_vendor_memory 0.9]))
   \<and> confidence_in_range (reinforceMemory ''m1'' (Some 0.02) 0 [ex_vendor_memory 0.9])
   \<and> confidence_in_range (weakenMemory exact_sub ''m1'' (Some 0.02) 0 [ex_vendor_memory 0.9])
   \<and> confidence_in_range
         (snd (mgr_recallMemories ''Supplier GmbH'' empty_query (30 * ms_per_day)
                 [ex_vendor_memory 0.9]))"
proof -
  have h: "confidence_in_range [ex_vendor_memory 0.9]"
    by (simp add: confidence_in_range_def ex_vendor_memory_def MIN_CONFIDENCE_def
          MAX_CONFIDENCE_def)
  have g: "given_at_least MIN_CONFIDENCE (Some 0.7)" "given_at_least 0 (Some 0.02)"
    by (simp_all add: given_at_least_def MIN_CONFIDENCE_def)
  show ?thesis
    using h g
      confidence_range_preserved [OF h, where ic = "Some 0.7" and newId = "''m3''"
        and v = "''Supplier GmbH''" and now = 0 and f = "''currency''"
        and op = "''human_correction''" and cv = "JStr ''EUR''"
        and cr = "''Human correction''" and strength = "Some 0.02" and i = "''m1''"
        and fs = exact_sub and iv = "''Supplier GmbH''" and q = empty_query]
      confidence_range_preserved [OF h, where now = "30 * ms_per_day"
        and iv = "''Supplier GmbH''" and q = empty_query]
    by simp
qed

section \<open>Properties of the apply stage\<close>

lemma group_add_fst:
  "map fst (group_add c m) =
     (if field c \<in> set (map fst m) then map fst m else map fst m @ [field c])"
  by (induction m) (fastforce simp add: image_iff)+

lemma group_add_distinct:
  "distinct (map fst m) \<Longrightarrow> distinct (map fst (group_add c m))"
  by (simp add: group_add_fst)

lemma group_add_map_of:
  "map_of (group_add c m) =
     (map_of m)(field c \<mapsto> (case map_of m (field c) of None \<Rightarrow> [c] | Some cs \<Rightarrow> cs @ [c]))"
  by (induction m) (auto simp add: fun_eq_iff)

lemma foldl_group_add:
  assumes "distinct (map fst m)"
  shows "distinct (map fst (foldl (\<lambda>m c. group_add c m) m cs))
       \<and> (\<forall>f. map_of (foldl (\<lambda>m c. group_add c m) m cs) f =
              (case map_of m f of
                 None \<Rightarrow> if f \<in> field ` set cs then Some (filter (\<lambda>c. field c = f) cs) else None
               | Some old \<Rightarrow> Some (old @ filter (\<lambda>c. field c = f) cs)))"
  using assms
proof (induction cs arbitrary: m)
  case Nil
  then show ?case by (simp split: option.splits)
next
  case (Cons c cs)
  have d: "distinct (map fst (group_add c m))"
    using Cons.prems by (rule group_add_distinct)
  show ?case
    using Cons.IH [OF d]
    by (auto simp add: group_add_map_of split: option.splits)
qed

lemma group_by_field_entries:
  "(f, fcs) \<in> set (group_by_field cs) \<longleftrightarrow>
     f \<in> field ` set cs \<and> fcs = filter (\<lambda>c. field c = f) cs"
proof -
  have d: "distinct (map fst (group_by_field cs))"
   and m: "\<And>f. map_of (group_by_field cs) f =
             (if f \<in> field ` set cs then Some (filter (\<lambda>c. field c = f) cs) else None)"
    using foldl_group_add [of "[]" cs] by (simp_all add: group_by_field_def)
  have "(f, fcs) \<in> set (group_by_field cs) \<longleftrightarrow> map_of (group_by_field cs) f = Some fcs"
    using d by simp
  then show ?thesis by (auto simp add: m)
qed

lemma remdups_two:
  "Suc 0 < length (remdups xs) \<longleftrightarrow> (\<exists>x\<in>set xs. \<exists>y\<in>set xs. x \<noteq> y)"
proof -
  have "length (remdups xs) = card (set xs)" by (simp add: length_remdups_card_conv)
  moreover have "card (set xs) \<le> Suc 0 \<longleftrightarrow> (\<forall>a\<in>set xs. \<forall>b\<in>set xs. a = b)"
    by (rule card_le_Suc0_iff_eq) simp
  ultimately show ?thesis by (metis not_less)
qed

lemma detectMemoryConflicts_iff:
  "detectMemoryConflicts cs \<noteq> [] \<longleftrightarrow> conflicting_serialisations cs"
proof
  assume "detectMemoryConflicts cs \<noteq> []"
  then obtain f fcs where e: "(f, fcs) \<in> set (group_by_field cs)"
    and l: "Suc 0 < length (remdups (map (\<lambda>c. json_roundtrip (proposedValue c)) fcs))"
    by (auto simp add: detectMemoryConflicts_def filter_empty_conv)
  from e have fcs: "fcs = filter (\<lambda>c. field c = f) cs"
    by (simp add: group_by_field_entries)
  from l obtain c1 c2 where "c1 \<in> set fcs" "c2 \<in> set fcs"
    "json_roundtrip (proposedValue c1) \<noteq> json_roundtrip (proposedValue c2)"
    unfolding remdups_two by auto
  then show "conflicting_serialisations cs"
    unfolding conflicting_serialisations_def list_ex_iff fcs by fastforce
next
  assume "conflicting_serialisations cs"
  then obtain c1 c2 where c: "c1 \<in> set cs" "c2 \<in> set cs" "field c1 = field c2"
    "json_roundtrip (proposedValue c1) \<noteq> json_roundtrip (proposedValue c2)"
    unfolding conflicting_serialisations_def list_ex_iff by auto
  define fcs where "fcs = filter (\<lambda>c. field c = field c1) cs"
  have e: "(field c1, fcs) \<in> set (group_by_field cs)"
    using c(1) by (simp add: group_by_field_entries fcs_def)
  have in12: "c1 \<in> set fcs" "c2 \<in> set fcs" using c by (simp_all add: fcs_def)
  then have l: "Suc 0 < length (remdups (map (\<lambda>c. json_roundtrip (proposedValue c)) fcs))"
    unfolding remdups_two using c(4) by auto
  moreover have "length (remdups (map (\<lambda>c. json_roundtrip (proposedValue c)) fcs)) \<le> length fcs"
    using length_remdups_leq [of "map (\<lambda>c. json_roundtrip (proposedValue c)) fcs"] by simp
  ultimately have "Suc 0 < length fcs" by linarith
  with e l show "detectMemoryConflicts cs \<noteq> []"
    by (auto simp add: detectMemoryConflicts_def filter_empty_conv)
qed

lemma applyMemories_loop_result:
  "applyMemories_loop rt invoice now memories st =
     \<lparr> as_corrections = as_corrections st
          @ map (\<lambda>m. the (applyMemory rt invoice m)) (applied_memories rt invoice memories),
       as_updates = as_updates (applyMemories_loop rt invoice now memories st),
       as_totalConfidence = as_totalConfidence st
          * prod_list (map confidence (applied_memories rt invoice memories)),
       as_appliedCount = as_appliedCount st + length (applied_memories rt invoice memories),
       as_db = as_db (applyMemories_loop rt invoice now memories st) \<rparr>"
proof (induction memories arbitrary: st)
  case Nil
  then show ?case by (simp add: applied_memories_def)
next
  case (Cons m ms)
  show ?case
  proof (cases "confidence m < memoryApplication thresholds")
    case True
    then show ?thesis using Cons.IH [of st] by (simp add: applied_memories_def)
  next
    case False
    show ?thesis
    proof (cases "applyMemory rt invoice m")
      case None
      then show ?thesis using False Cons.IH [of st] by (simp add: applied_memories_def)
    next
      case (Some c)
      then show ?thesis using False
        by (subst applyMemories_loop.simps, simp only: if_False option.case)
           (subst Cons.IH, simp add: applied_memories_def mult.assoc)
    qed
  qed
qed

section \<open>Properties of the pipeline\<close>

lemma processInvoice_apply:
  "proposedCorrections (fst (processInvoice rt h a now db)) =
     ar_corrections (fst (applyMemories rt (read_invoice h a) (recalled_for h a now db) now
                            (snd (proc_recallMemories (read_invoice h a) now db))))"
  "confidenceScore (fst (processInvoice rt h a now db)) =
     ar_confidence (fst (applyMemories rt (read_invoice h a) (recalled_for h a now db) now
                           (snd (proc_recallMemories (read_invoice h a) now db))))"
  by (simp_all add: processInvoice_def Let_def split_beta recalled_for_def)

lemma processInvoice_decision:
  "requiresHumanReview (fst (processInvoice rt h a now db)) =
     fst (makeDecision (confidenceScore (fst (processInvoice rt h a now db)))
            (proposedCorrections (fst (processInvoice rt h a now db))))"
  "reasoning (fst (processInvoice rt h a now db)) =
     snd (makeDecision (confidenceScore (fst (processInvoice rt h a now db)))
            (proposedCorrections (fst (processInvoice rt h a now db))))"
  by (simp_all add: processInvoice_def Let_def split_beta)

lemma processInvoice_normalized:
  "(normalizedInvoice (fst (processInvoice rt h a now db)), fst (snd (processInvoice rt h a now db)))
     = applyCorrections h a (proposedCorrections (fst (processInvoice rt h a now db)))"
  by (simp add: processInvoice_def Let_def split_beta)

lemma applyMemories_result:
  "ar_corrections (fst (applyMemories rt invoice memories now db)) =
     map (\<lambda>m. the (applyMemory rt invoice m)) (applied_memories rt invoice memories)"
  "ar_confidence (fst (applyMemories rt invoice memories now db)) =
     (if applied_memories rt invoice memories = [] then 0.9
      else if conflicting_serialisations (ar_corrections (fst (applyMemories rt invoice memories now db)))
      then prod_list (map confidence (applied_memories rt invoice memories)) * 0.7
      else prod_list (map confidence (applied_memories rt invoice memories)))"
proof -
  define st where "st = applyMemories_loop rt invoice now memories
                 \<lparr> as_corrections = [], as_updates = [], as_totalConfidence = 1.0,
                   as_appliedCount = 0, as_db = db \<rparr>"
  have c: "as_corrections st =
             map (\<lambda>m. the (applyMemory rt invoice m)) (applied_memories rt invoice memories)"
   and t: "as_totalConfidence st = prod_list (map confidence (applied_memories rt invoice memories))"
   and n: "as_appliedCount st = length (applied_memories rt invoice memories)"
    unfolding st_def by (subst applyMemories_loop_result, simp)+
  show "ar_corrections (fst (applyMemories rt invoice memories now db)) =
     map (\<lambda>m. the (applyMemory rt invoice m)) (applied_memories rt invoice memories)"
    using c by (simp add: applyMemories_def Let_def st_def)
  have "ar_confidence (fst (applyMemories rt invoice memories now db)) =
          (if as_appliedCount st > 0
           then (if detectMemoryConflicts (as_corrections st) \<noteq> []
                 then as_totalConfidence st * 0.7 else as_totalConfidence st)
           else 0.9)"
    by (simp add: applyMemories_def Let_def st_def)
  also have "\<dots> = (if applied_memories rt invoice memories = [] then 0.9
      else if conflicting_serialisations (as_corrections st)
      then prod_list (map confidence (applied_memories rt invoice memories)) * 0.7
      else prod_list (map confidence (applied_memories rt invoice memories)))"
    by (simp add: n t detectMemoryConflicts_iff)
  finally show "ar_confidence (fst (applyMemories rt invoice memories now db)) =
     (if applied_memories rt invoice memories = [] then 0.9
      else if conflicting_serialisations (ar_corrections (fst (applyMemories rt invoice memories now db)))
      then prod_list (map confidence (applied_memories rt invoice memories)) * 0.7
      else prod_list (map confidence (applied_memories rt invoice memories)))"
    by (simp add: applyMemories_def Let_def st_def)
qed

text \<open>
  C7 (as amended).  The corrections of the apply stage are those of the applied
  memories, in order.  When some field receives two proposed values whose JSON
  serialisations differ, the overall confidence is the product of the applied memories'
  confidences times 0.7, with the factor 0.7 once, however many fields conflict and
  however many values a field receives; when no field does and a memory was applied, it
  is the product itself.  \<open>JSON.stringify\<close> writes every number that is not finite
  as null, so distinct values can have one serialisation.
\<close>

theorem conflict_penalty_applied_once:
  "ar_corrections (fst (applyMemories rt invoice memories now db)) =
     map (\<lambda>m. the (applyMemory rt invoice m)) (applied_memories rt invoice memories)
   \<and> (conflicting_serialisations (ar_corrections (fst (applyMemories rt invoice memories now db))) \<longrightarrow>
        ar_confidence (fst (applyMemories rt invoice memories now db)) =
          prod_list (map confidence (applied_memories rt invoice memories)) * 0.7)
   \<and> (\<not> conflicting_serialisations (ar_corrections (fst (applyMemories rt invoice memories now db)))
        \<and> applied_memories rt invoice memories \<noteq> [] \<longrightarrow>
        ar_confidence (fst (applyMemories rt invoice memories now db)) =
          prod_list (map confidence (applied_memories rt invoice memories)))"
proof -
  have "conflicting_serialisations (ar_corrections (fst (applyMemories rt invoice memories now db)))
          \<Longrightarrow> applied_memories rt invoice memories \<noteq> []"
    by (auto simp add: applyMemories_result(1) conflicting_serialisations_def)
  then show ?thesis
    using applyMemories_result [of rt invoice memories now db] by auto
qed

text \<open>
  C6.  When no recalled memory at or above the application threshold yields a correction
  for the invoice, \<open>processInvoice\<close> proposes no correction, reports the overall
  confidence 0.9 and asks for no review: the auto-accept rule fires.
\<close>

theorem no_correction_auto_accept:
  assumes "list_all (\<lambda>m. confidence m \<ge> memoryApplication thresholds \<longrightarrow>
                          applyMemory rt (read_invoice h a) m = None)
             (recalled_for h a now db)"
  shows "proposedCorrections (fst (processInvoice rt h a now db)) = []
       \<and> confidenceScore (fst (processInvoice rt h a now db)) = 0.9
       \<and> requiresHumanReview (fst (processInvoice rt h a now db)) = False
       \<and> reasoning (fst (processInvoice rt h a now db)) = HighConfidence_AutoAccept 0.9"
proof -
  have e: "applied_memories rt (read_invoice h a) (recalled_for h a now db) = []"
    using assms by (auto simp add: applied_memories_def list_all_iff filter_empty_conv)
  have c: "proposedCorrections (fst (processInvoice rt h a now db)) = []"
    by (simp add: processInvoice_apply applyMemories_result e)
  have s: "confidenceScore (fst (processInvoice rt h a now db)) = 0.9"
    by (simp add: processInvoice_apply applyMemories_result e)
  show ?thesis
    by (simp add: c s processInvoice_decision makeDecision_def thresholds_def)
qed

text \<open>
  C8.  The audit trail of every result of \<open>processInvoice\<close> has exactly four
  entries, with the steps recall, apply, decide and learn in this order.
\<close>

theorem audit_trail_four_steps:
  "map step (auditTrail (fst (processInvoice rt h a now db)))
     = [step_recall, step_apply, step_decide, step_learn]"
  by (simp add: processInvoice_def Let_def split_beta)

lemma applyCorrectionMemory_sentinel:
  assumes "variant m = CorrectionMemory f ''human_correction'' v r ac rc"
  shows "applyMemory rt invoice m =
           Some \<lparr> field = f, originalValue = get_field invoice f, proposedValue = v,
                  corr_confidence = confidence m, memorySource = mem_id m,
                  corr_reasoning = CorrectionMemoryReasoning r ac \<rparr>"
  using assms by (simp add: applyMemory_def memory_type_def applyCorrectionMemory_def)

text \<open>
  C10.  A recalled correction memory whose pattern is the sentinel
  \<open>human_correction\<close> and whose confidence is at least 0.5 yields a correction that
  proposes its corrected value for its field, whatever the invoice's current value of the
  field is (also when it is the corrected value already); so the result has a proposed
  correction and the decision is not the auto-accept one.
\<close>

theorem human_correction_always_proposed:
  assumes "m \<in> set (recalled_for h a now db)"
      and "variant m = CorrectionMemory f ''human_correction'' v r ac rc"
      and "confidence m \<ge> memoryApplication thresholds"
  shows "\<lparr> field = f, originalValue = get_field (read_invoice h a) f, proposedValue = v,
           corr_confidence = confidence m, memorySource = mem_id m,
           corr_reasoning = CorrectionMemoryReasoning r ac \<rparr>
           \<in> set (proposedCorrections (fst (processInvoice rt h a now db)))
       \<and> proposedCorrections (fst (processInvoice rt h a now db)) \<noteq> []
       \<and> \<not> is_auto_accept (reasoning (fst (processInvoice rt h a now db)))"
proof -
  let ?c = "\<lparr> field = f, originalValue = get_field (read_invoice h a) f, proposedValue = v,
           corr_confidence = confidence m, memorySource = mem_id m,
           corr_reasoning = CorrectionMemoryReasoning r ac \<rparr>"
  have ap: "applyMemory rt (read_invoice h a) m = Some ?c"
    using assms(2) by (rule applyCorrectionMemory_sentinel)
  then have "m \<in> set (applied_memories rt (read_invoice h a) (recalled_for h a now db))"
    using assms(1,3) by (simp add: applied_memories_def)
  then have "the (applyMemory rt (read_invoice h a) m)
               \<in> set (proposedCorrections (fst (processInvoice rt h a now db)))"
    by (simp add: processInvoice_apply applyMemories_result)
  then have i: "?c \<in> set (proposedCorrections (fst (processInvoice rt h a now db)))"
    by (simp add: ap)
  then have n: "proposedCorrections (fst (processInvoice rt h a now db)) \<noteq> []"
    by auto
  then have "\<not> is_auto_accept (reasoning (fst (processInvoice rt h a now db)))"
    by (simp add: processInvoice_decision makeDecision_def is_auto_accept_def Let_def)
  with i n show ?thesis by simp
qed

text \<open>
  A run of the whole pipeline: a vendor memory with trigger \<open>Leistungsdatum\<close> and
  confidence 0.72 yields the service date found in the raw text, and the result is
  corrected without review.
\<close>

lemma leistungsdatum_run:
  "proposedCorrections
     (fst (processInvoice ex_runtime ex_heap 0 0 [ex_leistungsdatum_memory]))
     = [\<lparr> field = ''serviceDate'', originalValue = None, proposedValue = JStr ''2024-01-10'',
           corr_confidence = 0.72, memorySource = ''m5'',
           corr_reasoning =
             VendorMemoryReasoning ''Leistungsdatum'' ''serviceDate'' field_mapping \<rparr>]"
  "reasoning (fst (processInvoice ex_runtime ex_heap 0 0 [ex_leistungsdatum_memory]))
     = GoodConfidence_AutoCorrect 0.72"
  "requiresHumanReview (fst (processInvoice ex_runtime ex_heap 0 0 [ex_leistungsdatum_memory]))
     = False"
  by code_simp+

section \<open>The normalized invoice\<close>

lemma set_extracted_simps [simp]:
  "invoice_at (set_extracted h n k v) = invoice_at h"
  "metadata_at (set_extracted h n k v) = metadata_at h"
  "free (set_extracted h n k v) = free h"
  "data_at (set_extracted h n k v) =
     (data_at h)(obj_extractedData (invoice_at h n) :=
                   AList.update k v (data_at h (obj_extractedData (invoice_at h n))))"
  by (simp_all add: set_extracted_def Let_def)

lemma foldl_set_extracted:
  "invoice_at (foldl (\<lambda>h' c. set_extracted h' n (field c) (proposedValue c)) h1 cs) = invoice_at h1"
  "metadata_at (foldl (\<lambda>h' c. set_extracted h' n (field c) (proposedValue c)) h1 cs) = metadata_at h1"
  "free (foldl (\<lambda>h' c. set_extracted h' n (field c) (proposedValue c)) h1 cs) = free h1"
  "data_at (foldl (\<lambda>h' c. set_extracted h' n (field c) (proposedValue c)) h1 cs) =
     (data_at h1)(obj_extractedData (invoice_at h1 n) :=
        foldl (\<lambda>kv c. AList.update (field c) (proposedValue c) kv)
          (data_at h1 (obj_extractedData (invoice_at h1 n))) cs)"
  by (induction cs arbitrary: h1) simp_all

lemma map_of_foldl_update:
  "map_of (foldl (\<lambda>kv c. AList.update (field c) (proposedValue c) kv) kv cs) f =
     (case last_proposed cs f of Some v \<Rightarrow> Some v | None \<Rightarrow> map_of kv f)"
  by (induction cs arbitrary: kv) (auto simp add: update_conv' split: option.splits)

lemma map_of_map_values:
  "map_of (map (map_prod id g) kvs) k = map_option g (map_of kvs k)"
  by (induction kvs) auto

lemma applyCorrections_heap:
  "applyCorrections h a cs =
     (free h,
      h\<lparr> invoice_at := (invoice_at h)
             (free h := (invoice_at h a)\<lparr> obj_extractedData := free h, obj_metadata := free h \<rparr>),
         data_at := (data_at h)
             (free h := foldl (\<lambda>kv c. AList.update (field c) (proposedValue c) kv)
                          (map (map_prod id json_roundtrip)
                             (data_at h (obj_extractedData (invoice_at h a)))) cs),
         metadata_at := (metadata_at h)(free h := metadata_at h (obj_metadata (invoice_at h a))),
         free := free h + 1 \<rparr>)"
  by (simp add: applyCorrections_def json_clone_def Let_def foldl_set_extracted heap.equality)

text \<open>
  C9 (as amended).  \<open>processInvoice\<close> writes to no object that exists when it is
  called, so the input invoice reads the same afterwards.  The normalized invoice
  consists of new objects; its id, vendor, raw text and metadata are those of the input,
  and each field of its \<open>extractedData\<close> holds the value proposed by the last
  correction that names the field, or, when no correction names it, the JSON round trip
  of the input's value: the input's value with every number that is not finite replaced
  by null.
\<close>

theorem normalized_invoice_is_corrected_copy:
  assumes "allocated h a" and "b < free h"
  shows "let res = fst (processInvoice rt h a now db);
             h' = fst (snd (processInvoice rt h a now db));
             n = normalizedInvoice res
         in read_invoice h' a = read_invoice h a
          \<and> invoice_at h' b = invoice_at h b \<and> data_at h' b = data_at h b
          \<and> metadata_at h' b = metadata_at h b
          \<and> \<not> n < free h \<and> \<not> obj_extractedData (invoice_at h' n) < free h
          \<and> \<not> obj_metadata (invoice_at h' n) < free h
          \<and> inv_id (read_invoice h' n) = inv_id (read_invoice h a)
          \<and> inv_vendor (read_invoice h' n) = inv_vendor (read_invoice h a)
          \<and> rawText (read_invoice h' n) = rawText (read_invoice h a)
          \<and> metadata (read_invoice h' n) = metadata (read_invoice h a)
          \<and> get_field (read_invoice h' n) f =
               (case last_proposed (proposedCorrections res) f of
                  Some v \<Rightarrow> Some v
                | None \<Rightarrow> map_option json_roundtrip (get_field (read_invoice h a) f))"
proof -
  obtain n h' where nh: "applyCorrections h a (proposedCorrections (fst (processInvoice rt h a now db)))
                           = (n, h')"
    by (cases "applyCorrections h a (proposedCorrections (fst (processInvoice rt h a now db)))")
  then have r: "normalizedInvoice (fst (processInvoice rt h a now db)) = n"
               "fst (snd (processInvoice rt h a now db)) = h'"
    using processInvoice_normalized [of rt h a now db] by simp_all
  from nh have n: "n = free h"
    and h': "h' = h\<lparr> invoice_at := (invoice_at h)
             (free h := (invoice_at h a)\<lparr> obj_extractedData := free h, obj_metadata := free h \<rparr>),
         data_at := (data_at h)
             (free h := foldl (\<lambda>kv c. AList.update (field c) (proposedValue c) kv)
                          (map (map_prod id json_roundtrip)
                             (data_at h (obj_extractedData (invoice_at h a))))
                          (proposedCorrections (fst (processInvoice rt h a now db)))),
         metadata_at := (metadata_at h)(free h := metadata_at h (obj_metadata (invoice_at h a))),
         free := free h + 1 \<rparr>"
    by (auto simp add: applyCorrections_heap)
  have "read_invoice h' a = read_invoice h a"
    using assms(1) by (simp add: h' read_invoice_def allocated_def Let_def)
  moreover have "invoice_at h' b = invoice_at h b" "data_at h' b = data_at h b"
    "metadata_at h' b = metadata_at h b"
    using assms(2) by (simp_all add: h')
  moreover have "\<not> n < free h" "\<not> obj_extractedData (invoice_at h' n) < free h"
    "\<not> obj_metadata (invoice_at h' n) < free h"
    by (simp_all add: n h')
  moreover have "inv_id (read_invoice h' n) = inv_id (read_invoice h a)"
    "inv_vendor (read_invoice h' n) = inv_vendor (read_invoice h a)"
    "rawText (read_invoice h' n) = rawText (read_invoice h a)"
    "metadata (read_invoice h' n) = metadata (read_invoice h a)"
    by (simp_all add: n h' read_invoice_def Let_def)
  moreover have "get_field (read_invoice h' n) f =
               (case last_proposed (proposedCorrections (fst (processInvoice rt h a now db))) f of
                  Some v \<Rightarrow> Some v
                | None \<Rightarrow> map_option json_roundtrip (get_field (read_invoice h a) f))"
    by (simp add: n h' read_invoice_def Let_def get_field_def map_of_foldl_update
          map_of_map_values split: option.splits)
  ultimately show ?thesis
    by (simp add: r Let_def)
qed

theorem normalized_invoice_is_corrected_copy_witness:
  "allocated ex_heap 0 \<and> (0::nat) < free ex_heap
   \<and> read_invoice (fst (snd (processInvoice ex_runtime ex_heap 0 0 ex_store_conflict))) 0
       = read_invoice ex_heap 0
   \<and> data_at (fst (snd (processInvoice ex_runtime ex_heap 0 0 ex_store_conflict))) 0
       = data_at ex_heap 0
   \<and> get_field
        (read_invoice (fst (snd (processInvoice ex_runtime ex_heap 0 0 ex_store_conflict)))
           (normalizedInvoice (fst (processInvoice ex_runtime ex_heap 0 0 ex_store_conflict))))
        ''currency''
       = (case last_proposed
                 (proposedCorrections (fst (processInvoice ex_runtime ex_heap 0 0 ex_store_conflict)))
                 ''currency'' of
            Some v \<Rightarrow> Some v
          | None \<Rightarrow> map_option json_roundtrip (get_field (read_invoice ex_heap 0) ''currency''))"
proof -
  have h1: "allocated ex_heap 0" by (simp add: allocated_def ex_heap_def)
  have h2: "(0::nat) < free ex_heap" by (simp add: ex_heap_def)
  from normalized_invoice_is_corrected_copy [OF h1 h2, of ex_runtime 0 ex_store_conflict "''currency''"]
    h1 h2
  show ?thesis by (simp add: Let_def)
qed

text \<open>
  C9 as stated fails in two ways.  When two corrections name the same field: two
  correction memories propose EUR and USD for the missing currency, both corrections
  are in the result, and the normalized invoice holds USD, not the EUR of the first
  correction.  And when a field that no correction names holds a number that is not
  finite: with an empty store no correction is proposed, the input's amount is
  Infinity, and the amount of the normalized invoice is null.
\<close>

theorem conflicting_corrections_last_wins:
  "map field (proposedCorrections (fst (processInvoice ex_runtime ex_heap 0 0 ex_store_conflict)))
     = [''currency'', ''currency'']
   \<and> map proposedValue
        (proposedCorrections (fst (processInvoice ex_runtime ex_heap 0 0 ex_store_conflict)))
     = [JStr ''EUR'', JStr ''USD'']
   \<and> get_field
        (read_invoice (fst (snd (processInvoice ex_runtime ex_heap 0 0 ex_store_conflict)))
           (normalizedInvoice (fst (processInvoice ex_runtime ex_heap 0 0 ex_store_conflict))))
        ''currency''
     = Some (JStr ''USD'')
   \<and> proposedCorrections (fst (processInvoice ex_runtime ex_heap_infinite 0 0 [])) = []
   \<and> get_field (read_invoice ex_heap_infinite 0) ''amount'' = Some (JInf True)
   \<and> get_field
        (read_invoice (fst (snd (processInvoice ex_runtime ex_heap_infinite 0 0 [])))
           (normalizedInvoice (fst (processInvoice ex_runtime ex_heap_infinite 0 0 []))))
        ''amount''
     = Some JNull"
  by code_simp

theorem conflict_penalty_applied_once_witness:
  "conflicting_serialisations (ar_corrections (fst (applyMemories ex_runtime (read_invoice ex_heap 0)
                                        ex_store_conflict 0 ex_store_conflict)))
   \<and> ar_confidence (fst (applyMemories ex_runtime (read_invoice ex_heap 0)
                            ex_store_conflict 0 ex_store_conflict))
       = prod_list (map confidence
                      (applied_memories ex_runtime (read_invoice ex_heap 0) ex_store_conflict))
         * 0.7
   \<and> \<not> conflicting_serialisations (ar_corrections (fst (applyMemories ex_runtime (read_invoice ex_heap 0)
                                        [ex_same_value_memory] 0 [ex_same_value_memory])))
   \<and> applied_memories ex_runtime (read_invoice ex_heap 0) [ex_same_value_memory] \<noteq> []
   \<and> ar_confidence (fst (applyMemories ex_runtime (read_invoice ex_heap 0)
                            [ex_same_value_memory] 0 [ex_same_value_memory]))
       = prod_list (map confidence
                      (applied_memories ex_runtime (read_invoice ex_heap 0)
                         [ex_same_value_memory]))"
proof -
  have c: "conflicting_serialisations (ar_corrections (fst (applyMemories ex_runtime (read_invoice ex_heap 0)
                                        ex_store_conflict 0 ex_store_conflict)))"
    by code_simp
  have n: "\<not> conflicting_serialisations (ar_corrections (fst (applyMemories ex_runtime (read_invoice ex_heap 0)
                                        [ex_same_value_memory] 0 [ex_same_value_memory])))"
    by code_simp
  have a: "applied_memories ex_runtime (read_invoice ex_heap 0) [ex_same_value_memory] \<noteq> []"
    by code_simp
  from conflict_penalty_applied_once
         [of ex_runtime "read_invoice ex_heap 0" ex_store_conflict 0 ex_store_conflict]
       conflict_penalty_applied_once
         [of ex_runtime "read_invoice ex_heap 0" "[ex_same_value_memory]" 0
             "[ex_same_value_memory]"]
       c n a
  show ?thesis by blast
qed

text \<open>
  C7 as stated fails when distinct proposed values have the same serialisation.  For the
  invoice with \<open>taxTotal\<close> Infinity, \<open>processInvoice\<close> recalls both memories of
  the store; the apply stage proposes Infinity and null for the VAT amount, two distinct
  values for one field, each with confidence 0.9; and the overall confidence is the
  product 0.81, without the factor 0.7.
\<close>

theorem same_serialisation_no_penalty:
  "recalled_for ex_heap_taxTotal 0 0 ex_store_same_serialisation = ex_store_same_serialisation
   \<and> map field (ar_corrections (fst (applyMemories ex_runtime (read_invoice ex_heap_taxTotal 0)
                                       ex_store_same_serialisation 0 ex_store_same_serialisation)))
     = [''vatAmount'', ''vatAmount'']
   \<and> map proposedValue
        (ar_corrections (fst (applyMemories ex_runtime (read_invoice ex_heap_taxTotal 0)
                                ex_store_same_serialisation 0 ex_store_same_serialisation)))
     = [JInf True, JNull]
   \<and> JInf True \<noteq> JNull
   \<and> map confidence
        (applied_memories ex_runtime (read_invoice ex_heap_taxTotal 0) ex_store_same_serialisation)
     = [0.9, 0.9]
   \<and> ar_confidence (fst (applyMemories ex_runtime (read_invoice ex_heap_taxTotal 0)
                            ex_store_same_serialisation 0 ex_store_same_serialisation))
     = 0.81
   \<and> confidenceScore (fst (processInvoice ex_runtime ex_heap_taxTotal 0 0
                              ex_store_same_serialisation))
     = 0.81
   \<and> map proposedValue
        (proposedCorrections (fst (processInvoice ex_runtime ex_heap_taxTotal 0 0
                                     ex_store_same_serialisation)))
     = [JInf True, JNull]"
  by code_simp

theorem no_correction_auto_accept_witness:
  "list_all (\<lambda>m. confidence m \<ge> memoryApplication thresholds \<longrightarrow>
                   applyMemory ex_runtime (read_invoice ex_heap 0) m = None)
     (recalled_for ex_heap 0 0 [ex_vendor_memory 0.9])
   \<and> recalled_for ex_heap 0 0 [ex_vendor_memory 0.9] = [ex_vendor_memory 0.9]
   \<and> proposedCorrections (fst (processInvoice ex_runtime ex_heap 0 0 [ex_vendor_memory 0.9])) = []
   \<and> confidenceScore (fst (processInvoice ex_runtime ex_heap 0 0 [ex_vendor_memory 0.9])) = 0.9
   \<and> requiresHumanReview (fst (processInvoice ex_runtime ex_heap 0 0 [ex_vendor_memory 0.9]))
       = False"
proof -
  have h: "list_all (\<lambda>m. confidence m \<ge> memoryApplication thresholds \<longrightarrow>
                   applyMemory ex_runtime (read_invoice ex_heap 0) m = None)
             (recalled_for ex_heap 0 0 [ex_vendor_memory 0.9])"
    by code_simp
  have r: "recalled_for ex_heap 0 0 [ex_vendor_memory 0.9] = [ex_vendor_memory 0.9]"
    by code_simp
  from no_correction_auto_accept [OF h] h r show ?thesis by simp
qed

theorem human_correction_always_proposed_witness:
  "ex_same_value_memory \<in> set (recalled_for ex_heap 0 0 [ex_same_value_memory])
   \<and> variant ex_same_value_memory
       = CorrectionMemory ''vatAmount'' ''human_correction'' (JNum 0) ''Human correction'' 0 0
   \<and> confidence ex_same_value_memory \<ge> memoryApplication thresholds
   \<and> get_field (read_invoice ex_heap 0) ''vatAmount'' = Some (JNum 0)
   \<and> \<lparr> field = ''vatAmount'', originalValue = Some (JNum 0), proposedValue = JNum 0,
        corr_confidence = 0.8, memorySource = ''m4'',
        corr_reasoning = CorrectionMemoryReasoning ''Human correction'' 0 \<rparr>
        \<in> set (proposedCorrections
                 (fst (processInvoice ex_runtime ex_heap 0 0 [ex_same_value_memory])))
   \<and> \<not> is_auto_accept
          (reasoning (fst (processInvoice ex_runtime ex_heap 0 0 [ex_same_value_memory])))"
proof -
  have h1: "ex_same_value_memory \<in> set (recalled_for ex_heap 0 0 [ex_same_value_memory])"
    by code_simp
  have h2: "variant ex_same_value_memory
       = CorrectionMemory ''vatAmount'' ''human_correction'' (JNum 0) ''Human correction'' 0 0"
    by (simp add: ex_same_value_memory_def)
  have h3: "confidence ex_same_value_memory \<ge> memoryApplication thresholds"
    by (simp add: ex_same_value_memory_def thresholds_def)
  have g: "get_field (read_invoice ex_heap 0) ''vatAmount'' = Some (JNum 0)"
    by code_simp
  have c: "confidence ex_same_value_memory = 0.8" "mem_id ex_same_value_memory = ''m4''"
    by (simp_all add: ex_same_value_memory_def)
  from human_correction_always_proposed [OF h1 h2 h3, of ex_runtime] h1 h2 h3 g c
  show ?thesis by simp
qed

theorem audit_trail_four_steps_witness:
  "map step (auditTrail (fst (processInvoice ex_runtime ex_heap 0 0 ex_store_conflict)))
     = [step_recall, step_apply, step_decide, step_learn]"
  using audit_trail_four_steps [of ex_runtime ex_heap 0 0 ex_store_conflict] by simp

end
